theory Spec2Isabelle
  imports Main "HOL-Library.AList" "HOL-Library.Multiset"
begin

section \<open>JavaScript values\<close>

text \<open>
  The payloads of socket.io events are JSON values, and the player and log objects the
  server keeps are plain JavaScript objects whose prototype is \<open>Object.prototype\<close>.
  \<open>Num n\<close> is the number \<open>n\<close>, an integer of magnitude at most \<open>2^53\<close>: each of them
  is a double, and \<open>String(n)\<close> is its decimal numeral. Every other number (a fraction,
  a larger magnitude, \<open>NaN\<close>, an infinity) is \<open>NumStr s\<close>, given by the string \<open>s\<close> that
  \<open>String\<close> makes of it: \<open>1.5\<close> is \<open>NumStr ''1.5''\<close> and \<open>1e21\<close> is \<open>NumStr ''1e+21''\<close>.
  An object is its list of properties in definition order (JavaScript enumerates
  integer-like keys first; nothing here depends on the order); the first binding of a
  key is the property's value, and a JavaScript object has every key once. No value is a
  function: JSON has none, and the server puts none into its objects. A character is a
  code unit below 256.
\<close>

datatype jsval =
    Undefined
  | Null
  | Bool bool
  | Num int
  | NumStr string
  | Str string
  | Arr "jsval list"
  | Obj "(string \<times> jsval) list"

type_synonym jsobj = "(string \<times> jsval) list"

text \<open>
  \<open>TypeError\<close> is the exception a handler throws. \<open>NotModelled\<close> is no exception: it
  stands where this model stops describing the code (a \<open>Num\<close> beyond \<open>2^53\<close> is
  printed, the prototype of a player object is assigned), so that no statement is made
  about such a run.
\<close>

datatype error = TypeError | NotModelled

text \<open>Truthiness, as \<open>if (v)\<close>, \<open>!v\<close>, \<open>a || b\<close> and \<open>a && b\<close> read it.\<close>

fun truthy :: "jsval \<Rightarrow> bool" where
  "truthy Undefined = False"
| "truthy Null = False"
| "truthy (Bool b) = b"
| "truthy (Num n) = (n \<noteq> 0)"
| "truthy (NumStr s) = (s \<noteq> ''NaN'' \<and> s \<noteq> ''0'')"
| "truthy (Str s) = (s \<noteq> [])"
| "truthy (Arr xs) = True"
| "truthy (Obj ps) = True"

definition js_or :: "jsval \<Rightarrow> jsval \<Rightarrow> jsval" where
  "js_or a b = (if truthy a then a else b)"

definition js_and :: "jsval \<Rightarrow> jsval \<Rightarrow> jsval" where
  "js_and a b = (if truthy a then b else a)"

definition nullish :: "jsval \<Rightarrow> bool" where
  "nullish v = (v = Undefined \<or> v = Null)"

text \<open>
  \<open>obj_get ps k\<close> reads property \<open>k\<close> of an object: \<open>undefined\<close> when it has none.
  \<open>get_prop v k\<close> is \<open>v.k\<close> for a value that is neither \<open>null\<close> nor \<open>undefined\<close>, for the
  property names this server reads (none of them is a property of a number, a boolean,
  a string or an array); where \<open>v\<close> may be \<open>null\<close> or \<open>undefined\<close> the handlers test
  \<open>nullish v\<close> first and return \<open>TypeError\<close>, as \<open>v.k\<close> throws there.
  \<open>get_prop_opt v k\<close> is \<open>v?.k\<close>.
\<close>

definition obj_get :: "jsobj \<Rightarrow> string \<Rightarrow> jsval" where
  "obj_get ps k = (case map_of ps k of None \<Rightarrow> Undefined | Some v \<Rightarrow> v)"

definition obj_set :: "jsobj \<Rightarrow> string \<Rightarrow> jsval \<Rightarrow> jsobj" where
  "obj_set ps k v = AList.update k v ps"

fun get_prop :: "jsval \<Rightarrow> string \<Rightarrow> jsval" where
  "get_prop (Obj ps) k = obj_get ps k"
| "get_prop v k = Undefined"

definition get_prop_opt :: "jsval \<Rightarrow> string \<Rightarrow> jsval" where
  "get_prop_opt v k = (if nullish v then Undefined else get_prop v k)"

text \<open>
  Decimal numerals, and \<open>String(v)\<close> as a template literal \<open>${v}\<close> computes it. For an
  object, \<open>ToPrimitive\<close> looks for a callable \<open>toString\<close>, then for a callable
  \<open>valueOf\<close> that returns a primitive: an object without an own \<open>toString\<close> property
  inherits the one of \<open>Object.prototype\<close> and prints as \<open>[object Object]\<close>; an own
  \<open>toString\<close> property hides it and is not callable, an own \<open>valueOf\<close> is not callable
  either and the inherited one returns the object itself, so the conversion throws a
  \<open>TypeError\<close>. An array prints its elements, each converted in turn (nothing for
  \<open>null\<close> and \<open>undefined\<close>), with commas between them, and throws when an element does.
\<close>

definition digit_char :: "nat \<Rightarrow> char" where
  "digit_char d = ''0123456789'' ! d"

fun dec :: "nat \<Rightarrow> string" where
  "dec n = (if n < 10 then [digit_char n] else dec (n div 10) @ [digit_char (n mod 10)])"

declare dec.simps [simp del]

fun join_comma :: "string list \<Rightarrow> string" where
  "join_comma [] = []"
| "join_comma [s] = s"
| "join_comma (s # t # ts) = s @ CHR '','' # join_comma (t # ts)"

fun to_string :: "jsval \<Rightarrow> error + string"
  and elements_to_string :: "jsval list \<Rightarrow> error + string list" where
  "to_string Undefined = Inr ''undefined''"
| "to_string Null = Inr ''null''"
| "to_string (Bool b) = Inr (if b then ''true'' else ''false'')"
| "to_string (Num n) =
     (if abs n \<le> 9007199254740992
      then Inr (if n < 0 then CHR ''-'' # dec (nat (- n)) else dec (nat n))
      else Inl NotModelled)"
| "to_string (NumStr s) = Inr s"
| "to_string (Str s) = Inr s"
| "to_string (Arr xs) =
     (case elements_to_string xs of
        Inl e \<Rightarrow> Inl e
      | Inr ss \<Rightarrow> Inr (join_comma ss))"
| "to_string (Obj ps) =
     (if ''toString'' \<in> set (map fst ps) then Inl TypeError else Inr ''[object Object]'')"
| "elements_to_string [] = Inr []"
| "elements_to_string (x # xs) =
     (case (if x = Undefined \<or> x = Null then Inr [] else to_string x) of
        Inl e \<Rightarrow> Inl e
      | Inr s \<Rightarrow>
          (case elements_to_string xs of
             Inl e \<Rightarrow> Inl e
           | Inr ss \<Rightarrow> Inr (s # ss)))"

text \<open>
  The own enumerable properties of a value, in order, as the spread \<open>{...v}\<close> copies
  them (nothing for \<open>null\<close>, \<open>undefined\<close>, numbers and booleans; the indices of a string
  or an array), and the copy of them onto an object under construction.
\<close>

fun own_props :: "jsval \<Rightarrow> jsobj" where
  "own_props (Obj ps) = ps"
| "own_props (Arr xs) = zip (map dec [0..<length xs]) xs"
| "own_props (Str s) = zip (map dec [0..<length s]) (map (\<lambda>c. Str [c]) s)"
| "own_props v = []"

definition spread_into :: "jsobj \<Rightarrow> jsval \<Rightarrow> jsobj" where
  "spread_into tgt v = foldl (\<lambda>ob (k, x). obj_set ob k x) tgt (own_props v)"

text \<open>
  \<open>Object.assign(target, source)\<close> copies the same properties, but by assignment: on an
  object that has no own property \<open>__proto__\<close>, assigning to that key calls the setter
  of \<open>Object.prototype\<close>, which replaces the prototype when the value is an object or
  \<open>null\<close> and does nothing otherwise. Prototypes other than \<open>Object.prototype\<close> are not
  modelled.
\<close>

fun is_object :: "jsval \<Rightarrow> bool" where
  "is_object (Obj ps) = True"
| "is_object (Arr xs) = True"
| "is_object v = False"

definition assign_prop :: "error + jsobj \<Rightarrow> string \<times> jsval \<Rightarrow> error + jsobj" where
  "assign_prop r kv =
     (case r of
        Inl e \<Rightarrow> Inl e
      | Inr ob \<Rightarrow>
          (case kv of (k, v) \<Rightarrow>
             if k = ''__proto__'' \<and> ''__proto__'' \<notin> set (map fst ob)
             then (if is_object v \<or> v = Null then Inl NotModelled else Inr ob)
             else Inr (obj_set ob k v)))"

definition object_assign :: "jsobj \<Rightarrow> jsval \<Rightarrow> error + jsobj" where
  "object_assign tgt v = foldl assign_prop (Inr tgt) (own_props v)"

section \<open>The server's state\<close>

text \<open>
  \<open>sessions\<close> is a JavaScript \<open>Map\<close> from session identifiers to session objects, and
  each session's \<open>players\<close> is a \<open>Map\<close> from socket identifiers to player objects. A
  \<open>Map\<close> is its list of entries in insertion order: \<open>Map.set\<close> is \<open>AList.update\<close>
  (an existing key keeps its place), \<open>Map.get\<close> is \<open>map_of\<close>, \<open>Map.delete\<close> is
  \<open>AList.delete\<close>. Both maps are keyed by strings, so a key that is not a string is
  never found.
\<close>

record session =
  session_id :: string
  masterId :: "string option"
  players :: "(string \<times> jsobj) list"
  gameLog :: "jsobj list"
  gameState :: jsval
  gmNotes :: jsval
  createdAt :: int
  lastActivity :: int

type_synonym store = "(string \<times> session) list"

text \<open>
  The fields the handlers keep on the socket object, and the rooms the socket has joined
  with \<open>socket.join\<close>. A field that was never assigned is \<open>None\<close> (\<open>Undefined\<close> for
  \<open>isMaster\<close>, which \<open>rejoinSession\<close> copies from the player object).
\<close>

record socket =
  socket_id :: string
  sessionId :: "string option"
  playerId :: "string option"
  isMaster :: jsval
  rooms :: "string list"

definition new_socket :: "string \<Rightarrow> socket" where
  "new_socket c =
     \<lparr>socket_id = c, sessionId = None, playerId = None, isMaster = Undefined, rooms = []\<rparr>"

text \<open>
  \<open>socket.sessionId\<close> and \<open>socket.playerId\<close> hold a string once assigned; as a
  condition (\<open>!socket.sessionId\<close>) such a field counts when it is set and is not the
  empty string.
\<close>

definition find_entry :: "(string \<times> 'v) list \<Rightarrow> jsval \<Rightarrow> (string \<times> 'v) option" where
  "find_entry m key =
     (case key of
        Str k \<Rightarrow> (case map_of m k of None \<Rightarrow> None | Some v \<Rightarrow> Some (k, v))
      | _ \<Rightarrow> None)"

definition join_room :: "string \<Rightarrow> string list \<Rightarrow> string list" where
  "join_room r rs = (if r \<in> set rs then rs else rs @ [r])"

text \<open>
  An emitted event: whom it goes to, its name and its payload. \<open>ToSocket c\<close> is
  \<open>socket.emit\<close> on the socket \<open>c\<close>, \<open>ToOthers r c\<close> is \<open>socket.to(r).emit\<close> (the room
  \<open>r\<close> without the sender \<open>c\<close>), \<open>ToRoom r\<close> is \<open>io.to(r).emit\<close> (everyone in the room),
  \<open>Callback c\<close> is a call of the acknowledgement function that came with a legacy
  request of the socket \<open>c\<close> (the name is then the request's). The rooms are the session
  rooms; the room socket.io gives each socket under its own identifier is addressed by
  no handler.
\<close>

datatype target = ToSocket string | ToOthers string string | ToRoom string | Callback string

type_synonym out = "target \<times> string \<times> jsval"

text \<open>
  \<open>clk k\<close> is what the \<open>k\<close>-th call of \<open>Date.now()\<close> inside one run of a handler
  returns (counted from 0). A handler returns the socket, the store and the emitted
  events, or the \<open>TypeError\<close> it throws: nothing catches it, so the Node process ends
  there and no state is left to describe, whatever the handler had assigned and emitted
  before the throw.
\<close>

type_synonym clock = "nat \<Rightarrow> int"

type_synonym result = "error + (socket \<times> store \<times> out list)"

section \<open>The handlers\<close>

text \<open>
  \<open>createSession\<close>: \<open>rnd\<close> is \<open>Math.random().toString(36).substring(2, 8)\<close>, at most six
  characters of \<open>0-9a-z\<close>, taken from the environment.
\<close>

definition createSession :: "string \<Rightarrow> clock \<Rightarrow> socket \<Rightarrow> store \<Rightarrow> result" where
  "createSession rnd clk socket sessions =
     (let sid = ''rinascimento-'' @ rnd;
          session = \<lparr>session_id = sid, masterId = None, players = [], gameLog = [],
                     gameState = Obj [], gmNotes = Undefined,
                     createdAt = clk 0, lastActivity = clk 1\<rparr>
      in Inr (socket, AList.update sid session sessions,
              [(ToSocket (socket_id socket), ''sessionCreated'',
                Obj [(''sessionId'', Str sid), (''success'', Bool True)])]))"

definition joinSession :: "clock \<Rightarrow> jsval \<Rightarrow> socket \<Rightarrow> store \<Rightarrow> result" where
  "joinSession clk data socket sessions =
     (if nullish data then Inl TypeError
      else
        case find_entry sessions (get_prop data ''sessionId'') of
          None \<Rightarrow>
            Inr (socket, sessions,
                 [(ToSocket (socket_id socket), ''sessionError'',
                   Obj [(''message'', Str ''Sessione non trovata''),
                        (''code'', Str ''SESSION_NOT_FOUND'')])])
        | Some (sid, session) \<Rightarrow>
            Inr (socket\<lparr>rooms := join_room sid (rooms socket),
                        sessionId := Some sid\<rparr>,
                 AList.update sid (session\<lparr>lastActivity := clk 0\<rparr>) sessions,
                 [(ToSocket (socket_id socket), ''joinedSession'',
                   Obj [(''sessionId'', Str sid),
                        (''players'', Arr (map (\<lambda>(k, p). Obj p) (players session))),
                        (''gameLog'', Arr (map Obj (gameLog session)))])]))"

text \<open>
  The handlers that found their player end with \<open>console.log\<close> of a template literal
  that holds \<open>${player.name}\<close> between a session identifier and fixed text. The
  conversion of the name to a string may throw; this is the handler's last statement, so
  the throw comes after the assignments and the calls of \<open>emit\<close>.
\<close>

definition log_name :: "jsobj \<Rightarrow> error + 'a \<Rightarrow> error + 'a" where
  "log_name player r =
     (case to_string (obj_get player ''name'') of
        Inl e \<Rightarrow> Inl e
      | Inr line \<Rightarrow> r)"

text \<open>
  The value of \<open>session.masterId && session.players.get(session.masterId)?.online\<close>:
  the check of \<open>joinAsGameMaster\<close> and the \<open>hasMaster\<close> of \<open>getActiveSessions\<close>.
\<close>

definition master_online :: "session \<Rightarrow> jsval" where
  "master_online session =
     (case masterId session of
        None \<Rightarrow> Null
      | Some m \<Rightarrow>
          js_and (Str m)
            (case map_of (players session) m of
               None \<Rightarrow> Undefined
             | Some p \<Rightarrow> obj_get p ''online''))"

text \<open>The message is \<open>C'e gia un Game Master in questa sessione\<close>, with its two accents.\<close>

definition master_present_message :: string where
  "master_present_message =
     ''C'' @ [CHR 0x27, CHR 0xE8] @ '' gi'' @ [CHR 0xE0] @ '' un Game Master in questa sessione''"

definition new_player :: "string \<Rightarrow> jsval \<Rightarrow> bool \<Rightarrow> int \<Rightarrow> jsobj" where
  "new_player sid playerData master now =
     [(''id'', Str sid),
      (''name'', get_prop playerData ''name''),
      (''characterName'', js_or (get_prop playerData ''characterName'') (Str [])),
      (''characterConcept'', js_or (get_prop playerData ''characterConcept'') (Str [])),
      (''isMaster'', Bool master),
      (''online'', Bool True),
      (''joinedAt'', Num now)]"

definition joinAsGameMaster :: "clock \<Rightarrow> jsval \<Rightarrow> socket \<Rightarrow> store \<Rightarrow> result" where
  "joinAsGameMaster clk data socket sessions =
     (if nullish data then Inl TypeError
      else
        case find_entry sessions (get_prop data ''sessionId'') of
          None \<Rightarrow>
            Inr (socket, sessions,
                 [(ToSocket (socket_id socket), ''sessionError'',
                   Obj [(''message'', Str ''Sessione non trovata'')])])
        | Some (sid, session) \<Rightarrow>
            if truthy (master_online session) then
              Inr (socket, sessions,
                   [(ToSocket (socket_id socket), ''sessionError'',
                     Obj [(''message'', Str master_present_message)])])
            else if nullish (get_prop data ''playerData'') then Inl TypeError
            else
              let player = new_player (socket_id socket) (get_prop data ''playerData'') True (clk 0)
              in log_name player
                   (Inr (socket\<lparr>playerId := Some (socket_id socket), isMaster := Bool True\<rparr>,
                         AList.update sid
                           (session\<lparr>players :=
                                       AList.update (socket_id socket) player (players session),
                                     masterId := Some (socket_id socket),
                                     lastActivity := clk 1\<rparr>)
                           sessions,
                         [(ToSocket (socket_id socket), ''playerJoined'',
                           Obj [(''playerId'', Str (socket_id socket)),
                                (''playerData'', Obj player),
                                (''isMaster'', Bool True)]),
                          (ToOthers sid (socket_id socket), ''playerUpdate'',
                           Obj [(''player'', Obj player)])])))"

definition joinAsPlayer :: "clock \<Rightarrow> jsval \<Rightarrow> socket \<Rightarrow> store \<Rightarrow> result" where
  "joinAsPlayer clk data socket sessions =
     (if nullish data then Inl TypeError
      else
        case find_entry sessions (get_prop data ''sessionId'') of
          None \<Rightarrow>
            Inr (socket, sessions,
                 [(ToSocket (socket_id socket), ''sessionError'',
                   Obj [(''message'', Str ''Sessione non trovata'')])])
        | Some (sid, session) \<Rightarrow>
            if nullish (get_prop data ''playerData'') then Inl TypeError
            else
              let player = new_player (socket_id socket) (get_prop data ''playerData'') False (clk 0)
              in log_name player
                   (Inr (socket\<lparr>playerId := Some (socket_id socket), isMaster := Bool False\<rparr>,
                         AList.update sid
                           (session\<lparr>players :=
                                       AList.update (socket_id socket) player (players session),
                                     lastActivity := clk 1\<rparr>)
                           sessions,
                         [(ToSocket (socket_id socket), ''playerJoined'',
                           Obj [(''playerId'', Str (socket_id socket)),
                                (''playerData'', Obj player),
                                (''isMaster'', Bool False)]),
                          (ToOthers sid (socket_id socket), ''playerUpdate'',
                           Obj [(''player'', Obj player)])])))"

definition rejoin_failed :: "socket \<Rightarrow> out" where
  "rejoin_failed socket =
     (ToSocket (socket_id socket), ''sessionError'',
      Obj [(''message'', Str ''Impossibile riconnettersi alla sessione'')])"

definition rejoinSession :: "clock \<Rightarrow> jsval \<Rightarrow> socket \<Rightarrow> store \<Rightarrow> result" where
  "rejoinSession clk data socket sessions =
     (if nullish data then Inl TypeError
      else
        case find_entry sessions (get_prop data ''sessionId'') of
          None \<Rightarrow> Inr (socket, sessions, [rejoin_failed socket])
        | Some (sid, session) \<Rightarrow>
            (case find_entry (players session) (get_prop data ''playerId'') of
               None \<Rightarrow> Inr (socket, sessions, [rejoin_failed socket])
             | Some (pid, player0) \<Rightarrow>
                 let player = obj_set player0 ''online'' (Bool True)
                 in log_name player
                      (Inr (socket\<lparr>rooms := join_room sid (rooms socket),
                                    sessionId := Some sid,
                                    playerId := Some pid,
                                    isMaster := obj_get player ''isMaster''\<rparr>,
                            AList.update sid
                              (session\<lparr>players := AList.update pid player (players session),
                                        lastActivity := clk 0\<rparr>)
                              sessions,
                            [(ToSocket (socket_id socket), ''playerJoined'',
                              Obj [(''playerId'', Str pid),
                                   (''playerData'', Obj player),
                                   (''isMaster'', obj_get player ''isMaster'')]),
                             (ToOthers sid (socket_id socket), ''playerUpdate'',
                              Obj [(''player'', Obj player)])]))))"

definition characterUpdate :: "clock \<Rightarrow> jsval \<Rightarrow> socket \<Rightarrow> store \<Rightarrow> result" where
  "characterUpdate clk data socket sessions =
     (case (sessionId socket, playerId socket) of
        (Some sid, Some pid) \<Rightarrow>
          if sid = [] \<or> pid = [] then Inr (socket, sessions, [])
          else
            (case map_of sessions sid of
               None \<Rightarrow> Inr (socket, sessions, [])
             | Some session \<Rightarrow>
                 (case map_of (players session) pid of
                    None \<Rightarrow> Inr (socket, sessions, [])
                  | Some player0 \<Rightarrow>
                      if nullish data then Inl TypeError
                      else
                        let player =
                              (if truthy (get_prop data ''character'')
                               then obj_set player0 ''character''
                                      (Obj (spread_into
                                              (spread_into [] (obj_get player0 ''character''))
                                              (get_prop data ''character'')))
                               else player0)
                        in Inr (socket,
                                AList.update sid
                                  (session\<lparr>players := AList.update pid player (players session),
                                            lastActivity := clk 0\<rparr>)
                                  sessions,
                                [(ToOthers sid (socket_id socket), ''gameStateUpdate'',
                                  Obj [(''type'', Str ''characterUpdate''),
                                       (''playerId'', Str pid),
                                       (''playerName'', obj_get player ''name''),
                                       (''character'', get_prop data ''character'')])])))
      | _ \<Rightarrow> Inr (socket, sessions, []))"

text \<open>
  \<open>gameStateUpdate\<close>: the content of a log entry is
  \<open>data.note || `Tiro dadi: ${data.roll?.total}`\<close>. The template literal is evaluated
  only when the note is falsy, and the conversion of the total to a string may throw:
  that is inside the argument of \<open>gameLog.push\<close>, so after \<open>lastActivity\<close> was
  assigned, before the entry is pushed and before the payload is emitted.
\<close>

definition log_content :: "jsval \<Rightarrow> error + jsval" where
  "log_content data =
     (if truthy (get_prop data ''note'') then Inr (get_prop data ''note'')
      else
        case to_string (get_prop_opt (get_prop data ''roll'') ''total'') of
          Inl e \<Rightarrow> Inl e
        | Inr shown \<Rightarrow> Inr (Str (''Tiro dadi: '' @ shown)))"

definition log_entry :: "int \<Rightarrow> jsval \<Rightarrow> jsval \<Rightarrow> jsobj" where
  "log_entry now data content =
     [(''timestamp'', Num now),
      (''type'', get_prop data ''type''),
      (''author'', js_or (get_prop data ''playerName'') (Str ''Sistema'')),
      (''content'', content),
      (''data'', data)]"

definition gameStateUpdate :: "clock \<Rightarrow> jsval \<Rightarrow> socket \<Rightarrow> store \<Rightarrow> result" where
  "gameStateUpdate clk data socket sessions =
     (case sessionId socket of
        None \<Rightarrow> Inr (socket, sessions, [])
      | Some sid \<Rightarrow>
          if sid = [] then Inr (socket, sessions, [])
          else
            (case map_of sessions sid of
               None \<Rightarrow> Inr (socket, sessions, [])
             | Some session \<Rightarrow>
                 if nullish data then Inl TypeError
                 else if get_prop data ''type'' = Str ''diceRoll''
                         \<or> get_prop data ''type'' = Str ''gmNote''
                 then
                   (case log_content data of
                      Inl e \<Rightarrow> Inl e
                    | Inr content \<Rightarrow>
                        Inr (socket,
                             AList.update sid
                               (session\<lparr>lastActivity := clk 0,
                                         gameLog :=
                                           gameLog session @ [log_entry (clk 1) data content]\<rparr>)
                               sessions,
                             [(ToRoom sid, ''gameStateUpdate'', data)]))
                 else
                   Inr (socket,
                        AList.update sid (session\<lparr>lastActivity := clk 0\<rparr>) sessions,
                        [(ToRoom sid, ''gameStateUpdate'', data)])))"

text \<open>\<open>getActiveSessions\<close>: the loop over the entries, then the sort by \<open>createdAt\<close>.\<close>

record summary =
  summ_sessionId :: string
  playerCount :: nat
  hasMaster :: jsval
  summ_createdAt :: int

definition onlinePlayers :: "session \<Rightarrow> jsobj list" where
  "onlinePlayers session =
     filter (\<lambda>p. truthy (obj_get p ''online'')) (map snd (players session))"

fun collect_active :: "store \<Rightarrow> summary list" where
  "collect_active [] = []"
| "collect_active ((sid, session) # rest) =
     (if length (onlinePlayers session) > 0
      then \<lparr>summ_sessionId = sid,
            playerCount = length (onlinePlayers session),
            hasMaster = master_online session,
            summ_createdAt = createdAt session\<rparr> # collect_active rest
      else collect_active rest)"

text \<open>
  \<open>Array.prototype.sort\<close> is stable, and the comparator \<open>b.createdAt - a.createdAt\<close>
  orders by \<open>createdAt\<close>, larger first: the stable sort on the negated key.
\<close>

definition activeSessions :: "store \<Rightarrow> summary list" where
  "activeSessions sessions = sort_key (\<lambda>a. - summ_createdAt a) (collect_active sessions)"

definition summary_json :: "summary \<Rightarrow> jsval" where
  "summary_json a =
     Obj [(''sessionId'', Str (summ_sessionId a)),
          (''playerCount'', Num (int (playerCount a))),
          (''hasMaster'', hasMaster a),
          (''createdAt'', Num (summ_createdAt a))]"

definition getActiveSessions :: "socket \<Rightarrow> store \<Rightarrow> result" where
  "getActiveSessions socket sessions =
     Inr (socket, sessions,
          [(ToSocket (socket_id socket), ''activeSessions'',
            Obj [(''sessions'', Arr (map summary_json (activeSessions sessions)))])])"

definition gmNotesUpdate :: "clock \<Rightarrow> jsval \<Rightarrow> socket \<Rightarrow> store \<Rightarrow> result" where
  "gmNotesUpdate clk data socket sessions =
     (case sessionId socket of
        None \<Rightarrow> Inr (socket, sessions, [])
      | Some sid \<Rightarrow>
          if sid = [] \<or> \<not> truthy (isMaster socket) then Inr (socket, sessions, [])
          else
            (case map_of sessions sid of
               None \<Rightarrow> Inr (socket, sessions, [])
             | Some session \<Rightarrow>
                 if nullish data then Inl TypeError
                 else
                   Inr (socket,
                        AList.update sid
                          (session\<lparr>gmNotes := get_prop data ''notes'', lastActivity := clk 0\<rparr>)
                          sessions,
                        [(ToSocket (socket_id socket), ''gmNotesSaved'', Undefined)])))"

text \<open>\<open>disconnect\<close> looks the player up under the socket's own identifier.\<close>

definition disconnect :: "clock \<Rightarrow> socket \<Rightarrow> store \<Rightarrow> result" where
  "disconnect clk socket sessions =
     (case sessionId socket of
        None \<Rightarrow> Inr (socket, sessions, [])
      | Some sid \<Rightarrow>
          if sid = [] then Inr (socket, sessions, [])
          else
            (case map_of sessions sid of
               None \<Rightarrow> Inr (socket, sessions, [])
             | Some session \<Rightarrow>
                 (case map_of (players session) (socket_id socket) of
                    None \<Rightarrow> Inr (socket, sessions, [])
                  | Some player0 \<Rightarrow>
                      let player = obj_set player0 ''online'' (Bool False)
                      in log_name player
                           (Inr (socket,
                                 AList.update sid
                                   (session\<lparr>players :=
                                               AList.update (socket_id socket) player
                                                 (players session),
                                             lastActivity := clk 0\<rparr>)
                                   sessions,
                                 [(ToOthers sid (socket_id socket), ''playerUpdate'',
                                   Obj [(''player'', Obj player)]),
                                  (ToOthers sid (socket_id socket), ''player_disconnected'',
                                   Obj [(''playerId'', Str (socket_id socket)),
                                        (''playerName'', obj_get player ''name'')])])))))"

text \<open>The handlers of \<open>heartbeat\<close>, \<open>ping\<close> and \<open>messageAck\<close>.\<close>

definition heartbeat :: "socket \<Rightarrow> store \<Rightarrow> result" where
  "heartbeat socket sessions =
     Inr (socket, sessions, [(ToSocket (socket_id socket), ''heartbeat-ack'', Undefined)])"

definition ping :: "socket \<Rightarrow> store \<Rightarrow> result" where
  "ping socket sessions =
     Inr (socket, sessions, [(ToSocket (socket_id socket), ''pong'', Undefined)])"

definition messageAck :: "jsval \<Rightarrow> socket \<Rightarrow> store \<Rightarrow> result" where
  "messageAck data socket sessions =
     (if nullish data then Inl TypeError
      else if truthy (get_prop data ''messageId'')
      then Inr (socket, sessions,
                [(ToSocket (socket_id socket), ''messageAck'',
                  Obj [(''messageId'', get_prop data ''messageId'')])])
      else Inr (socket, sessions, []))"

subsection \<open>The legacy handlers\<close>

text \<open>
  \<open>create_session\<close> and \<open>join_session\<close> take a second argument, \<open>callback\<close>: the
  acknowledgement function socket.io appends when the client asked for one (\<open>Ack\<close>), or
  else whatever the client sent in that place (\<open>Arg v\<close>, with \<open>Arg Undefined\<close> for
  nothing). \<open>if (callback) callback(x)\<close> calls it when it is truthy, which throws when
  it is no function.
\<close>

datatype callback = Ack | Arg jsval

definition call_back :: "callback \<Rightarrow> socket \<Rightarrow> string \<Rightarrow> jsval \<Rightarrow> error + out list" where
  "call_back callback socket name payload =
     (case callback of
        Ack \<Rightarrow> Inr [(Callback (socket_id socket), name, payload)]
      | Arg v \<Rightarrow> if truthy v then Inl TypeError else Inr [])"

text \<open>
  The session of \<open>create_session\<close> has a first log entry and no \<open>gameState\<close>; its three
  readings of the clock are in the order of the object literal.
\<close>

definition create_session :: "string \<Rightarrow> clock \<Rightarrow> callback \<Rightarrow> socket \<Rightarrow> store \<Rightarrow> result" where
  "create_session rnd clk callback socket sessions =
     (let sid = ''rinascimento-'' @ rnd;
          session = \<lparr>session_id = sid, masterId = None, players = [],
                     gameLog = [[(''author'', Str ''Sistema''),
                                 (''text'', Str ''Sessione creata.''),
                                 (''timestamp'', Num (clk 0))]],
                     gameState = Undefined, gmNotes = Undefined,
                     createdAt = clk 1, lastActivity = clk 2\<rparr>
      in case call_back callback socket ''create_session''
                (Obj [(''success'', Bool True), (''sessionId'', Str sid)]) of
           Inl e \<Rightarrow> Inl e
         | Inr outs \<Rightarrow> Inr (socket, AList.update sid session sessions, outs))"

text \<open>
  \<open>join_session\<close> binds the socket as \<open>joinSession\<close> does and stores the player under
  the socket's identifier; it assigns neither \<open>socket.playerId\<close> nor \<open>socket.isMaster\<close>.
  \<open>playerData.wantsToBeMaster\<close> is read only when \<open>session.masterId\<close> is falsy, and
  throws when there is no \<open>playerData\<close>.
\<close>

definition join_session :: "clock \<Rightarrow> jsval \<Rightarrow> callback \<Rightarrow> socket \<Rightarrow> store \<Rightarrow> result" where
  "join_session clk data callback socket sessions =
     (if nullish data then Inl TypeError
      else
        case find_entry sessions (get_prop data ''sessionId'') of
          None \<Rightarrow>
            (case call_back callback socket ''join_session''
                    (Obj [(''success'', Bool False), (''error'', Str ''Sessione non trovata'')]) of
               Inl e \<Rightarrow> Inl e
             | Inr outs \<Rightarrow> Inr (socket, sessions, outs))
        | Some (sid, session) \<Rightarrow>
            let playerData = get_prop data ''playerData'';
                player0 = obj_set (obj_set (spread_into [] playerData)
                                     ''id'' (Str (socket_id socket)))
                            ''online'' (Bool True);
                vacant = (case masterId session of None \<Rightarrow> True | Some m \<Rightarrow> m = [])
            in if vacant \<and> nullish playerData then Inl TypeError
               else
                 let claims = vacant \<and> truthy (get_prop playerData ''wantsToBeMaster'');
                     player = (if claims then obj_set player0 ''isMaster'' (Bool True)
                               else player0);
                     session' =
                       session\<lparr>lastActivity := clk 0,
                                players := AList.update (socket_id socket) player (players session),
                                masterId := (if claims then Some (socket_id socket)
                                             else masterId session)\<rparr>
                 in case call_back callback socket ''join_session''
                           (Obj [(''success'', Bool True),
                                 (''session'',
                                  Obj [(''id'', Str sid),
                                       (''players'', Arr (map (\<lambda>(k, p). Obj p) (players session'))),
                                       (''gameLog'', Arr (map Obj (gameLog session'))),
                                       (''masterId'',
                                        case masterId session' of
                                          None \<Rightarrow> Null
                                        | Some m \<Rightarrow> Str m)])]) of
                      Inl e \<Rightarrow> Inl e
                    | Inr outs \<Rightarrow>
                        log_name player
                          (Inr (socket\<lparr>rooms := join_room sid (rooms socket),
                                        sessionId := Some sid\<rparr>,
                                AList.update sid session' sessions,
                                outs @ [(ToOthers sid (socket_id socket), ''player_joined'',
                                         Obj [(''player'', Obj player)])])))"

definition game_message :: "clock \<Rightarrow> jsval \<Rightarrow> socket \<Rightarrow> store \<Rightarrow> result" where
  "game_message clk data socket sessions =
     (case sessionId socket of
        None \<Rightarrow> Inr (socket, sessions, [])
      | Some sid \<Rightarrow>
          if sid = [] then Inr (socket, sessions, [])
          else
            (case map_of sessions sid of
               None \<Rightarrow> Inr (socket, sessions, [])
             | Some session \<Rightarrow>
                 let message = obj_set (spread_into [] data) ''timestamp'' (Num (clk 0))
                 in Inr (socket,
                         AList.update sid
                           (session\<lparr>gameLog := gameLog session @ [message],
                                     lastActivity := clk 1\<rparr>)
                           sessions,
                         [(ToRoom sid, ''game_message'', Obj message)])))"

definition update_player :: "clock \<Rightarrow> jsval \<Rightarrow> socket \<Rightarrow> store \<Rightarrow> result" where
  "update_player clk data socket sessions =
     (case sessionId socket of
        None \<Rightarrow> Inr (socket, sessions, [])
      | Some sid \<Rightarrow>
          if sid = [] then Inr (socket, sessions, [])
          else
            (case map_of sessions sid of
               None \<Rightarrow> Inr (socket, sessions, [])
             | Some session \<Rightarrow>
                 (case map_of (players session) (socket_id socket) of
                    None \<Rightarrow> Inr (socket, sessions, [])
                  | Some player0 \<Rightarrow>
                      (case object_assign player0 data of
                         Inl e \<Rightarrow> Inl e
                       | Inr player \<Rightarrow>
                           Inr (socket,
                                AList.update sid
                                  (session\<lparr>players :=
                                              AList.update (socket_id socket) player
                                                (players session),
                                            lastActivity := clk 0\<rparr>)
                                  sessions,
                                [(ToOthers sid (socket_id socket), ''player_updated'',
                                  Obj [(''playerId'', Str (socket_id socket)),
                                       (''playerData'', Obj player)])])))))"

subsection \<open>The hourly cleanup\<close>

definition oneHour :: int where
  "oneHour = 60 * 60 * 1000"

definition allPlayersOffline :: "session \<Rightarrow> bool" where
  "allPlayersOffline session =
     list_all (\<lambda>player. \<not> truthy (obj_get player ''online'')) (map snd (players session))"

text \<open>
  The loop visits the entries of the map and deletes from the map it iterates; an entry
  that is deleted is the one being visited, so the entries still to come are those of
  the map at the start.
\<close>

fun cleanup_loop :: "int \<Rightarrow> (string \<times> session) list \<Rightarrow> store \<Rightarrow> store" where
  "cleanup_loop now [] sessions = sessions"
| "cleanup_loop now ((sid, session) # rest) sessions =
     cleanup_loop now rest
       (if allPlayersOffline session \<and> now - lastActivity session > oneHour
        then AList.delete sid sessions
        else sessions)"

definition cleanup :: "clock \<Rightarrow> store \<Rightarrow> store" where
  "cleanup clk sessions = cleanup_loop (clk 0) sessions sessions"

section \<open>The server as a whole\<close>

text \<open>
  The connected sockets and the session store. Node runs one handler at a time, to its
  end: a run of the server is a sequence of connections, events received on a connected
  socket, and runs of the cleanup timer. An event carries the JSON value that is its
  payload (\<open>Undefined\<close> when it has none). The HTTP endpoints only read the store, and
  the listener for the socket's own \<open>error\<close> event only answers on that socket: they
  are no part of a run.
\<close>

record server =
  sessions_of :: store
  sockets :: "(string \<times> socket) list"

definition init_server :: server where
  "init_server = \<lparr>sessions_of = [], sockets = []\<rparr>"

datatype request =
    CreateSession string
  | JoinSession jsval
  | JoinAsGameMaster jsval
  | JoinAsPlayer jsval
  | RejoinSession jsval
  | CharacterUpdate jsval
  | GameStateUpdate jsval
  | GetActiveSessions
  | GmNotesUpdate jsval
  | Heartbeat
  | Ping
  | MessageAck jsval
  | Create_session string callback
  | Join_session jsval callback
  | Game_message jsval
  | Update_player jsval
  | Disconnect

datatype action = Connect string | Recv string clock request | Janitor clock

fun handle :: "clock \<Rightarrow> request \<Rightarrow> socket \<Rightarrow> store \<Rightarrow> result" where
  "handle clk (CreateSession rnd) socket sessions = createSession rnd clk socket sessions"
| "handle clk (JoinSession data) socket sessions = joinSession clk data socket sessions"
| "handle clk (JoinAsGameMaster data) socket sessions = joinAsGameMaster clk data socket sessions"
| "handle clk (JoinAsPlayer data) socket sessions = joinAsPlayer clk data socket sessions"
| "handle clk (RejoinSession data) socket sessions = rejoinSession clk data socket sessions"
| "handle clk (CharacterUpdate data) socket sessions = characterUpdate clk data socket sessions"
| "handle clk (GameStateUpdate data) socket sessions = gameStateUpdate clk data socket sessions"
| "handle clk GetActiveSessions socket sessions = getActiveSessions socket sessions"
| "handle clk (GmNotesUpdate data) socket sessions = gmNotesUpdate clk data socket sessions"
| "handle clk Heartbeat socket sessions = heartbeat socket sessions"
| "handle clk Ping socket sessions = ping socket sessions"
| "handle clk (MessageAck data) socket sessions = messageAck data socket sessions"
| "handle clk (Create_session rnd callback) socket sessions =
     create_session rnd clk callback socket sessions"
| "handle clk (Join_session data callback) socket sessions =
     join_session clk data callback socket sessions"
| "handle clk (Game_message data) socket sessions = game_message clk data socket sessions"
| "handle clk (Update_player data) socket sessions = update_player clk data socket sessions"
| "handle clk Disconnect socket sessions = disconnect clk socket sessions"

text \<open>
  A socket that disconnects leaves the table (and with it every room) once its
  \<open>disconnect\<close> handler has run. An event on an identifier that is not connected does
  not occur in socket.io; the step ignores it, as it ignores a second connection under
  an identifier that is in use.
\<close>

fun step :: "server \<Rightarrow> action \<Rightarrow> error + (server \<times> out list)" where
  "step srv (Connect c) =
     Inr (case map_of (sockets srv) c of
            None \<Rightarrow> srv\<lparr>sockets := sockets srv @ [(c, new_socket c)]\<rparr>
          | Some s \<Rightarrow> srv,
          [])"
| "step srv (Recv c clk req) =
     (case map_of (sockets srv) c of
        None \<Rightarrow> Inr (srv, [])
      | Some socket \<Rightarrow>
          (case handle clk req socket (sessions_of srv) of
             Inl e \<Rightarrow> Inl e
           | Inr (socket', sessions', outs) \<Rightarrow>
               Inr (\<lparr>sessions_of = sessions',
                     sockets = (case req of
                                  Disconnect \<Rightarrow> AList.delete c (sockets srv)
                                | _ \<Rightarrow> AList.update c socket' (sockets srv))\<rparr>,
                    outs)))"
| "step srv (Janitor clk) = Inr (srv\<lparr>sessions_of := cleanup clk (sessions_of srv)\<rparr>, [])"

fun run :: "server \<Rightarrow> action list \<Rightarrow> error + (server \<times> out list list)" where
  "run srv [] = Inr (srv, [])"
| "run srv (a # as) =
     (case step srv a of
        Inl e \<Rightarrow> Inl e
      | Inr (srv', outs) \<Rightarrow>
          (case run srv' as of
             Inl e \<Rightarrow> Inl e
           | Inr (srv'', outss) \<Rightarrow> Inr (srv'', outs # outss)))"

text \<open>The connections an emitted event reaches, given the table of connected sockets.\<close>

fun recipients :: "(string \<times> socket) list \<Rightarrow> target \<Rightarrow> string list" where
  "recipients socks (ToSocket c) = [c]"
| "recipients socks (Callback c) = [c]"
| "recipients socks (ToRoom r) = map fst (filter (\<lambda>(c, s). r \<in> set (rooms s)) socks)"
| "recipients socks (ToOthers r c) =
     filter (\<lambda>c'. c' \<noteq> c) (map fst (filter (\<lambda>(c, s). r \<in> set (rooms s)) socks))"

section \<open>States and runs\<close>

text \<open>
  What every state the server reaches satisfies: a connected socket is stored under its
  own identifier, and one that carries a \<open>sessionId\<close> has joined that session's room;
  session identifiers are not empty; both maps have every key once.
\<close>

definition wf_socket :: "string \<times> socket \<Rightarrow> bool" where
  "wf_socket e =
     (case e of (c, s) \<Rightarrow>
        socket_id s = c
        \<and> (case sessionId s of None \<Rightarrow> True | Some sid \<Rightarrow> sid \<noteq> [] \<and> sid \<in> set (rooms s)))"

definition wf_server :: "server \<Rightarrow> bool" where
  "wf_server srv =
     (list_all wf_socket (sockets srv)
      \<and> distinct (map fst (sockets srv))
      \<and> list_all (\<lambda>(k, s). k \<noteq> []) (sessions_of srv)
      \<and> distinct (map fst (sessions_of srv)))"

text \<open>
  The requests that assign \<open>socket.sessionId\<close> and call \<open>socket.join\<close>
  (\<open>joinSession\<close>, \<open>rejoinSession\<close> and the legacy \<open>join_session\<close>), a socket that is
  bound to no session and sits in no room, and an action by which it stays so.
\<close>

fun binds :: "request \<Rightarrow> bool" where
  "binds (JoinSession data) = True"
| "binds (RejoinSession data) = True"
| "binds (Join_session data callback) = True"
| "binds req = False"

definition unbound :: "string \<Rightarrow> (string \<times> socket) list \<Rightarrow> bool" where
  "unbound c socks =
     list_all (\<lambda>(c', s). c' = c \<longrightarrow> sessionId s = None \<and> rooms s = []) socks"

fun never_binds :: "string \<Rightarrow> action \<Rightarrow> bool" where
  "never_binds c (Recv c' clk req) = (c' = c \<longrightarrow> \<not> binds req)"
| "never_binds c a = True"

text \<open>
  What one run of a handler may do to the store (nothing, or one entry set under a
  non-empty identifier) and to the socket (its identifier stays; it is bound to a session
  of the store and joins its room, or its binding and rooms stay).
\<close>

definition store_step :: "store \<Rightarrow> store \<Rightarrow> bool" where
  "store_step sessions sessions' =
     (sessions' = sessions
      \<or> (\<exists>sid s'. sid \<noteq> [] \<and> sessions' = AList.update sid s' sessions))"

definition socket_step :: "store \<Rightarrow> socket \<Rightarrow> socket \<Rightarrow> bool" where
  "socket_step sessions socket socket' =
     (socket_id socket' = socket_id socket
      \<and> ((sessionId socket' = sessionId socket \<and> rooms socket' = rooms socket)
         \<or> (\<exists>sid. sid \<in> fst ` set sessions \<and> sessionId socket' = Some sid
                  \<and> rooms socket' = join_room sid (rooms socket))))"

definition shape :: "socket \<Rightarrow> store \<Rightarrow> result \<Rightarrow> bool" where
  "shape socket sessions r =
     (case r of
        Inl e \<Rightarrow> True
      | Inr (socket', sessions', outs) \<Rightarrow>
          store_step sessions sessions' \<and> socket_step sessions socket socket')"

definition keeps_binding :: "socket \<Rightarrow> result \<Rightarrow> bool" where
  "keeps_binding socket r =
     (case r of
        Inl e \<Rightarrow> True
      | Inr (socket', sessions', outs) \<Rightarrow>
          sessionId socket' = sessionId socket \<and> rooms socket' = rooms socket)"


section \<open>Scenarios\<close>

text \<open>
  What a run leaves behind: the session store and the server at its end, and the events
  its last step emitted (the empty store, the initial server and no event when the run
  ended in an error).
\<close>

definition final_sessions :: "error + (server \<times> out list list) \<Rightarrow> store" where
  "final_sessions r = (case r of Inl e \<Rightarrow> [] | Inr (srv, outs) \<Rightarrow> sessions_of srv)"

definition final_server :: "error + (server \<times> out list list) \<Rightarrow> server" where
  "final_server r = (case r of Inl e \<Rightarrow> init_server | Inr (srv, outs) \<Rightarrow> srv)"

definition last_events :: "error + (server \<times> out list list) \<Rightarrow> out list" where
  "last_events r = (case r of Inl e \<Rightarrow> [] | Inr (srv, outs) \<Rightarrow> last outs)"

text \<open>
  The players of a session that are master and online at once.
\<close>

definition live_masters :: "session \<Rightarrow> string list" where
  "live_masters session =
     map fst (filter (\<lambda>(k, p). obj_get p ''isMaster'' = Bool True \<and> obj_get p ''online'' = Bool True)
                (players session))"

text \<open>
  The payload \<open>{sessionId, playerData: {name}}\<close> of a join request, and a dice roll.
\<close>

definition join_payload :: "string \<Rightarrow> string \<Rightarrow> jsval" where
  "join_payload sid name =
     Obj [(''sessionId'', Str sid), (''playerData'', Obj [(''name'', Str name)])]"

definition dice_roll :: jsval where
  "dice_roll = Obj [(''type'', Str ''diceRoll''), (''roll'', Obj [(''total'', Num 15)])]"

text \<open>
  A master joins and disconnects, a second master takes the free seat, and the first
  one reconnects with \<open>rejoinSession\<close>.
\<close>

definition two_masters_trace :: "action list" where
  "two_masters_trace =
     [Connect ''A'',
      Recv ''A'' (\<lambda>k. 1000) (CreateSession ''abc123''),
      Recv ''A'' (\<lambda>k. 1001) (JoinSession (Obj [(''sessionId'', Str ''rinascimento-abc123'')])),
      Recv ''A'' (\<lambda>k. 1002) (JoinAsGameMaster (join_payload ''rinascimento-abc123'' ''Anna'')),
      Recv ''A'' (\<lambda>k. 1003) Disconnect,
      Connect ''B'',
      Recv ''B'' (\<lambda>k. 1004) (JoinAsGameMaster (join_payload ''rinascimento-abc123'' ''Bruno'')),
      Connect ''C'',
      Recv ''C'' (\<lambda>k. 1005)
        (RejoinSession (Obj [(''sessionId'', Str ''rinascimento-abc123''), (''playerId'', Str ''A'')]))]"

text \<open>
  Scenario B of the specification: two connections ask for the master's seat.
\<close>

definition scenario_B :: "action list" where
  "scenario_B =
     [Connect ''A'',
      Recv ''A'' (\<lambda>k. 1000) (CreateSession ''abc123''),
      Recv ''A'' (\<lambda>k. 1001) (JoinAsGameMaster (join_payload ''rinascimento-abc123'' ''Anna'')),
      Connect ''B'',
      Recv ''B'' (\<lambda>k. 1002) (JoinAsGameMaster (join_payload ''rinascimento-abc123'' ''Bruno''))]"

text \<open>
  A session with a player in it, before the random suffix \<open>abc123\<close> is drawn again.
\<close>

definition collision_trace :: "action list" where
  "collision_trace =
     [Connect ''A'',
      Recv ''A'' (\<lambda>k. 1000 + int k) (CreateSession ''abc123''),
      Recv ''A'' (\<lambda>k. 1002) (JoinAsPlayer (join_payload ''rinascimento-abc123'' ''Anna''))]"







text \<open>
  A \<open>joinSession\<close> for a session that does not exist.
\<close>

definition not_found_trace :: "action list" where
  "not_found_trace =
     [Connect ''A'',
      Recv ''A'' (\<lambda>k. 1000) (JoinSession (Obj [(''sessionId'', Str ''rinascimento-zzzzzz'')]))]"

text \<open>
  \<open>A\<close> creates a session and takes the master's seat, \<open>B\<close> enters with the legacy
  \<open>join_session\<close>, \<open>C\<close> joins as a player, and \<open>A\<close> sends a legacy \<open>update_player\<close>.
\<close>

definition seats_trace :: "action list" where
  "seats_trace =
     [Connect ''A'',
      Recv ''A'' (\<lambda>k. 1000) (CreateSession ''abc123''),
      Recv ''A'' (\<lambda>k. 1001) (JoinAsGameMaster (join_payload ''rinascimento-abc123'' ''Anna'')),
      Connect ''B'',
      Recv ''B'' (\<lambda>k. 1002) (Join_session (join_payload ''rinascimento-abc123'' ''Bruno'') Ack),
      Connect ''C'',
      Recv ''C'' (\<lambda>k. 1003) (JoinAsPlayer (join_payload ''rinascimento-abc123'' ''Carla'')),
      Recv ''A'' (\<lambda>k. 1004) (Update_player (Obj [(''name'', Str ''Zed'')]))]"

text \<open>
  A store with one session whose master \<open>A\<close> is online.
\<close>

definition notes_session :: session where
  "notes_session =
     \<lparr>session_id = ''rinascimento-abc123'', masterId = Some ''A'',
      players = [(''A'', new_player ''A'' (Obj [(''name'', Str ''Anna'')]) True 1002)],
      gameLog = [], gameState = Obj [], gmNotes = Str ''old'',
      createdAt = 1000, lastActivity = 1002\<rparr>"

definition notes_store :: store where
  "notes_store = [(''rinascimento-abc123'', notes_session)]"

text \<open>
  A session with the player \<open>A\<close>, online or not, and a server on which the socket
  \<open>B\<close> has joined the session's room and the socket \<open>C\<close> has just connected.
\<close>

definition anna :: "bool \<Rightarrow> jsobj" where
  "anna online = obj_set (new_player ''A'' (Obj [(''name'', Str ''Anna'')]) False 1002)
                   ''online'' (Bool online)"

definition room_session :: "bool \<Rightarrow> session" where
  "room_session online =
     \<lparr>session_id = ''rinascimento-abc123'', masterId = None,
      players = [(''A'', anna online)],
      gameLog = [], gameState = Obj [], gmNotes = Undefined,
      createdAt = 1000, lastActivity = 1003\<rparr>"



definition socket_A :: socket where
  "socket_A = \<lparr>socket_id = ''A'', sessionId = Some ''rinascimento-abc123'',
                playerId = Some ''A'', isMaster = Bool False, rooms = [''rinascimento-abc123'']\<rparr>"



text \<open>
  The player \<open>A\<close> after a first patch \<open>{a: 1}\<close> of the character.
\<close>

definition sheet :: jsobj where
  "sheet = obj_set (anna True) ''character'' (Obj [(''a'', Num 1)])"

definition sheet_session :: session where
  "sheet_session = (room_session True)\<lparr>players := [(''A'', sheet)]\<rparr>"

text \<open>
  Four sessions: one with its master online, one with a player online and no master, one
  whose only player is offline and that has been idle for long, and one whose only
  player is offline but that was active a moment ago.
\<close>

definition roster_entry :: "string \<Rightarrow> bool \<Rightarrow> bool \<Rightarrow> string \<times> jsobj" where
  "roster_entry c master online =
     (c, obj_set (new_player c (Obj [(''name'', Str c)]) master 50) ''online'' (Bool online))"

definition listed :: "string \<Rightarrow> string option \<Rightarrow> (string \<times> jsobj) list \<Rightarrow> int \<Rightarrow> int
    \<Rightarrow> string \<times> session" where
  "listed sid m ps created active =
     (sid, \<lparr>session_id = sid, masterId = m, players = ps, gameLog = [], gameState = Obj [],
            gmNotes = Undefined, createdAt = created, lastActivity = active\<rparr>)"

definition listing_store :: store where
  "listing_store =
     [listed ''rinascimento-aaaaaa'' (Some ''M'')
        [roster_entry ''M'' True True, roster_entry ''P'' False False] 100 100,
      listed ''rinascimento-bbbbbb'' None [roster_entry ''Q'' False True] 300 300,
      listed ''rinascimento-cccccc'' None [roster_entry ''R'' False False] 200 200,
      listed ''rinascimento-dddddd'' None [roster_entry ''S'' False False] 250 3000000]"

section \<open>Auxiliary facts\<close>

lemmas eval_defs = init_server_def new_socket_def createSession_def joinSession_def
  joinAsGameMaster_def joinAsPlayer_def rejoinSession_def disconnect_def rejoin_failed_def
  nullish_def find_entry_def obj_get_def obj_set_def master_online_def js_and_def js_or_def
  join_room_def new_player_def log_name_def Let_def final_sessions_def last_events_def

lemmas listing_defs = listing_store_def listed_def roster_entry_def new_player_def obj_set_def
  obj_get_def js_or_def

subsection \<open>Objects and maps\<close>

lemma find_entry_SomeD:
  "find_entry m v = Some (k, x) \<Longrightarrow> v = Str k \<and> map_of m k = Some x"
  by (auto simp: find_entry_def split: jsval.splits option.splits)


lemma join_room_set: "set (join_room r rs) = insert r (set rs)"
  by (auto simp: join_room_def)

lemma obj_get_obj_set:
  "obj_get (obj_set ob k v) k' = (if k' = k then v else obj_get ob k')"
  by (simp add: obj_get_def obj_set_def update_conv')

lemma list_all_update:
  "P (k, v) \<Longrightarrow> list_all P al \<Longrightarrow> list_all P (AList.update k v al)"
  by (induction al) auto

lemma list_all_delete: "list_all P al \<Longrightarrow> list_all P (AList.delete k al)"
  by (simp add: AList.delete_eq list_all_iff)

lemma map_of_filter_distinct:
  assumes "distinct (map fst xs)"
  shows "map_of (filter P xs) k =
           (case map_of xs k of None \<Rightarrow> None | Some v \<Rightarrow> if P (k, v) then Some v else None)"
  using assms
proof (induction xs)
  case Nil
  then show ?case by simp
next
  case (Cons x xs)
  obtain a b where x: "x = (a, b)" by (cases x)
  have "a \<notin> fst ` set xs"
    using Cons.prems x by simp
  then have "a \<notin> fst ` set (filter P xs)"
    by auto
  then have "map_of (filter P xs) a = None" and "map_of xs a = None"
    using \<open>a \<notin> fst ` set xs\<close> by (simp_all add: map_of_eq_None_iff)
  moreover have "distinct (map fst xs)"
    using Cons.prems by simp
  ultimately show ?case
    using Cons.IH x by (simp split: option.splits)
qed

lemma map_of_foldl_update_other:
  "k \<notin> fst ` set ps \<Longrightarrow>
     map_of (foldl (\<lambda>ob (k, x). obj_set ob k x) tgt ps) k = map_of tgt k"
  by (induction ps arbitrary: tgt) (auto simp: obj_set_def update_conv')

lemma map_of_foldl_update_distinct:
  "distinct (map fst ps) \<Longrightarrow>
     map_of (foldl (\<lambda>ob (k, x). obj_set ob k x) tgt ps) k =
       (case map_of ps k of None \<Rightarrow> map_of tgt k | Some v \<Rightarrow> Some v)"
proof (induction ps arbitrary: tgt)
  case Nil
  then show ?case by simp
next
  case (Cons x ps)
  obtain a b where x: "x = (a, b)" by (cases x)
  have "map_of ps a = None"
    using Cons.prems x by (auto simp: map_of_eq_None_iff)
  then show ?case
    using Cons x by (auto simp: obj_set_def update_conv' split: option.splits)
qed

lemma obj_get_spread_other:
  "k \<notin> fst ` set (own_props v) \<Longrightarrow> obj_get (spread_into tgt v) k = obj_get tgt k"
  by (simp add: obj_get_def spread_into_def map_of_foldl_update_other)

lemma obj_get_spread_distinct:
  assumes "distinct (map fst (own_props v))"
  shows "obj_get (spread_into tgt v) k =
           (if k \<in> fst ` set (own_props v) then obj_get (own_props v) k else obj_get tgt k)"
proof (cases "map_of (own_props v) k")
  case None
  then have "k \<notin> fst ` set (own_props v)"
    by (simp add: map_of_eq_None_iff)
  then show ?thesis
    using assms None
    by (simp add: obj_get_def spread_into_def map_of_foldl_update_distinct)
next
  case (Some x)
  then have "k \<in> fst ` set (own_props v)"
    by (metis map_of_eq_None_iff option.distinct(1))
  then show ?thesis
    using assms Some
    by (simp add: obj_get_def spread_into_def map_of_foldl_update_distinct)
qed

subsection \<open>The shape of a handler's result\<close>

lemma store_step_refl: "store_step sessions sessions"
  by (simp add: store_step_def)

lemma store_step_update: "sid \<noteq> [] \<Longrightarrow> store_step sessions (AList.update sid s' sessions)"
  unfolding store_step_def by blast

lemma socket_step_refl: "socket_step sessions socket socket"
  by (simp add: socket_step_def)

lemma socket_step_role:
  "socket_step sessions socket (socket\<lparr>playerId := p, isMaster := b\<rparr>)"
  by (simp add: socket_step_def)

lemma socket_step_join:
  "sid \<in> fst ` set sessions \<Longrightarrow>
     socket_step sessions socket
       (socket\<lparr>rooms := join_room sid (rooms socket), sessionId := Some sid\<rparr>)"
  unfolding socket_step_def by (intro conjI disjI2 exI [of _ sid]) simp_all

lemma socket_step_rejoin:
  "sid \<in> fst ` set sessions \<Longrightarrow>
     socket_step sessions socket
       (socket\<lparr>rooms := join_room sid (rooms socket), sessionId := Some sid,
               playerId := p, isMaster := b\<rparr>)"
  unfolding socket_step_def by (intro conjI disjI2 exI [of _ sid]) simp_all

lemma found_key:
  assumes "find_entry sessions v = Some (sid, session)"
    and "list_all (\<lambda>(k, s). k \<noteq> []) sessions"
  shows "sid \<noteq> []" and "sid \<in> fst ` set sessions"
proof -
  have "map_of sessions sid = Some session"
    using find_entry_SomeD [OF assms(1)] by simp
  then have in_set: "(sid, session) \<in> set sessions"
    by (rule map_of_SomeD)
  then show "sid \<in> fst ` set sessions"
    by (rule rev_image_eqI) simp
  show "sid \<noteq> []"
    using assms(2) in_set by (auto simp: list_all_iff)
qed

lemmas shape_simps = shape_def store_step_refl store_step_update socket_step_refl
  socket_step_role socket_step_join socket_step_rejoin

lemma createSession_shape: "shape socket sessions (createSession rnd clk socket sessions)"
  by (simp add: createSession_def Let_def shape_simps)

lemma characterUpdate_shape: "shape socket sessions (characterUpdate clk data socket sessions)"
  by (simp add: characterUpdate_def Let_def shape_simps split: option.split)

lemma gameStateUpdate_shape: "shape socket sessions (gameStateUpdate clk data socket sessions)"
  by (simp add: gameStateUpdate_def Let_def shape_simps split: option.split sum.split)

lemma gmNotesUpdate_shape: "shape socket sessions (gmNotesUpdate clk data socket sessions)"
  by (simp add: gmNotesUpdate_def Let_def shape_simps split: option.split)

lemma disconnect_shape: "shape socket sessions (disconnect clk socket sessions)"
  by (simp add: disconnect_def log_name_def Let_def shape_simps split: option.split sum.split)

lemma heartbeat_shape: "shape socket sessions (heartbeat socket sessions)"
  by (simp add: heartbeat_def shape_simps)

lemma ping_shape: "shape socket sessions (ping socket sessions)"
  by (simp add: ping_def shape_simps)

lemma messageAck_shape: "shape socket sessions (messageAck data socket sessions)"
  by (simp add: messageAck_def shape_simps)

lemma create_session_shape:
  "shape socket sessions (create_session rnd clk callback socket sessions)"
  by (simp add: create_session_def Let_def shape_simps split: sum.split)

lemma game_message_shape: "shape socket sessions (game_message clk data socket sessions)"
  by (simp add: game_message_def Let_def shape_simps split: option.split)

lemma update_player_shape: "shape socket sessions (update_player clk data socket sessions)"
  by (simp add: update_player_def Let_def shape_simps split: option.split sum.split)

lemma getActiveSessions_shape: "shape socket sessions (getActiveSessions socket sessions)"
  by (simp add: getActiveSessions_def shape_simps)

lemma joinSession_shape:
  assumes "list_all (\<lambda>(k, s). k \<noteq> []) sessions"
  shows "shape socket sessions (joinSession clk data socket sessions)"
proof (cases "find_entry sessions (get_prop data ''sessionId'')")
  case None
  then show ?thesis
    by (simp add: joinSession_def shape_simps)
next
  case (Some e)
  obtain sid session where e: "e = (sid, session)" by (cases e)
  note found_key [OF Some [unfolded e] assms]
  then show ?thesis
    using Some e by (simp add: joinSession_def shape_simps)
qed

lemma joinAsGameMaster_shape:
  assumes "list_all (\<lambda>(k, s). k \<noteq> []) sessions"
  shows "shape socket sessions (joinAsGameMaster clk data socket sessions)"
proof (cases "find_entry sessions (get_prop data ''sessionId'')")
  case None
  then show ?thesis
    by (simp add: joinAsGameMaster_def shape_simps)
next
  case (Some e)
  obtain sid session where e: "e = (sid, session)" by (cases e)
  note found_key [OF Some [unfolded e] assms]
  then show ?thesis
    using Some e
    by (simp add: joinAsGameMaster_def log_name_def Let_def shape_simps split: sum.split)
qed

lemma joinAsPlayer_shape:
  assumes "list_all (\<lambda>(k, s). k \<noteq> []) sessions"
  shows "shape socket sessions (joinAsPlayer clk data socket sessions)"
proof (cases "find_entry sessions (get_prop data ''sessionId'')")
  case None
  then show ?thesis
    by (simp add: joinAsPlayer_def shape_simps)
next
  case (Some e)
  obtain sid session where e: "e = (sid, session)" by (cases e)
  note found_key [OF Some [unfolded e] assms]
  then show ?thesis
    using Some e
    by (simp add: joinAsPlayer_def log_name_def Let_def shape_simps split: sum.split)
qed

lemma rejoinSession_shape:
  assumes "list_all (\<lambda>(k, s). k \<noteq> []) sessions"
  shows "shape socket sessions (rejoinSession clk data socket sessions)"
proof (cases "find_entry sessions (get_prop data ''sessionId'')")
  case None
  then show ?thesis
    by (simp add: rejoinSession_def shape_simps)
next
  case (Some e)
  obtain sid session where e: "e = (sid, session)" by (cases e)
  note found_key [OF Some [unfolded e] assms]
  then show ?thesis
    using Some e
    by (simp add: rejoinSession_def log_name_def Let_def shape_simps
          split: option.split sum.split)
qed

lemma join_session_shape:
  assumes "list_all (\<lambda>(k, s). k \<noteq> []) sessions"
  shows "shape socket sessions (join_session clk data callback socket sessions)"
proof (cases "find_entry sessions (get_prop data ''sessionId'')")
  case None
  then show ?thesis
    by (simp add: join_session_def shape_simps split: sum.split)
next
  case (Some e)
  obtain sid session where e: "e = (sid, session)" by (cases e)
  note found_key [OF Some [unfolded e] assms]
  then show ?thesis
    using Some e
    by (simp add: join_session_def log_name_def Let_def shape_simps split: sum.split)
qed

lemma handle_shape:
  assumes "list_all (\<lambda>(k, s). k \<noteq> []) sessions"
  shows "shape socket sessions (handle clk req socket sessions)"
  using assms
  by (cases req)
     (simp_all add: createSession_shape joinSession_shape joinAsGameMaster_shape
        joinAsPlayer_shape rejoinSession_shape characterUpdate_shape gameStateUpdate_shape
        getActiveSessions_shape gmNotesUpdate_shape disconnect_shape heartbeat_shape
        ping_shape messageAck_shape create_session_shape join_session_shape
        game_message_shape update_player_shape)

lemma store_step_keys:
  assumes "store_step sessions sessions'"
    and "list_all (\<lambda>(k, s). k \<noteq> []) sessions" and "distinct (map fst sessions)"
  shows "list_all (\<lambda>(k, s). k \<noteq> []) sessions' \<and> distinct (map fst sessions')"
proof (cases "sessions' = sessions")
  case True
  then show ?thesis using assms by simp
next
  case False
  then obtain sid s' where "sid \<noteq> []" and "sessions' = AList.update sid s' sessions"
    using assms(1) unfolding store_step_def by auto
  then show ?thesis
    using assms(2,3) by (simp add: list_all_update distinct_update)
qed

lemma socket_step_wf:
  assumes "socket_step sessions socket socket'" and "wf_socket (c, socket)"
    and "list_all (\<lambda>(k, s). k \<noteq> []) sessions"
  shows "wf_socket (c, socket')"
proof (cases "sessionId socket' = sessionId socket \<and> rooms socket' = rooms socket")
  case True
  then show ?thesis
    using assms(1,2) by (auto simp: socket_step_def wf_socket_def split: option.splits)
next
  case False
  then obtain sid where sid: "sid \<in> fst ` set sessions" "sessionId socket' = Some sid"
      "rooms socket' = join_room sid (rooms socket)"
    using assms(1) unfolding socket_step_def by auto
  have "sid \<noteq> []"
    using sid(1) assms(3) by (auto simp: list_all_iff)
  then show ?thesis
    using assms(1,2) sid by (simp add: socket_step_def wf_socket_def join_room_set)
qed

subsection \<open>The cleanup as a filter\<close>

lemma cleanup_loop_filter:
  "cleanup_loop now es m =
     filter (\<lambda>(k, s). \<not> (\<exists>s'. (k, s') \<in> set es
                \<and> allPlayersOffline s' \<and> now - lastActivity s' > oneHour)) m"
proof (induction es arbitrary: m)
  case Nil
  then show ?case by simp
next
  case (Cons e es)
  obtain k0 s0 where e: "e = (k0, s0)" by (cases e)
  show ?case
  proof (cases "allPlayersOffline s0 \<and> now - lastActivity s0 > oneHour")
    case True
    have "cleanup_loop now (e # es) m = cleanup_loop now es (AList.delete k0 m)"
      using True e by simp
    also have "\<dots> = filter (\<lambda>(k, s). \<not> (\<exists>s'. (k, s') \<in> set es
                \<and> allPlayersOffline s' \<and> now - lastActivity s' > oneHour))
                  (filter (\<lambda>(k, s). k0 \<noteq> k) m)"
      by (simp only: Cons.IH AList.delete_eq)
    also have "\<dots> = filter (\<lambda>(k, s). \<not> (\<exists>s'. (k, s') \<in> set (e # es)
                \<and> allPlayersOffline s' \<and> now - lastActivity s' > oneHour)) m"
      unfolding filter_filter using True e
      by (intro filter_cong refl) auto
    finally show ?thesis .
  next
    case False
    have "cleanup_loop now (e # es) m = cleanup_loop now es m"
      using False e by auto
    also have "\<dots> = filter (\<lambda>(k, s). \<not> (\<exists>s'. (k, s') \<in> set es
                \<and> allPlayersOffline s' \<and> now - lastActivity s' > oneHour)) m"
      by (rule Cons.IH)
    also have "\<dots> = filter (\<lambda>(k, s). \<not> (\<exists>s'. (k, s') \<in> set (e # es)
                \<and> allPlayersOffline s' \<and> now - lastActivity s' > oneHour)) m"
      using False e
      by (intro filter_cong refl) auto
    finally show ?thesis .
  qed
qed

lemma cleanup_filter:
  assumes "distinct (map fst sessions)"
  shows "cleanup clk sessions =
           filter (\<lambda>(k, s). \<not> (allPlayersOffline s \<and> clk 0 - lastActivity s > oneHour)) sessions"
proof -
  have same: "s' = s" if "(k, s) \<in> set sessions" and "(k, s') \<in> set sessions" for k s s'
    using eq_key_imp_eq_value [OF assms that(2,1)] .
  have "(case x of (k, s) \<Rightarrow> \<not> (\<exists>s'. (k, s') \<in> set sessions
                \<and> allPlayersOffline s' \<and> clk 0 - lastActivity s' > oneHour))
        = (case x of (k, s) \<Rightarrow> \<not> (allPlayersOffline s \<and> clk 0 - lastActivity s > oneHour))"
    if "x \<in> set sessions" for x
  proof -
    obtain k s where x: "x = (k, s)" by (cases x)
    have "(\<exists>s'. (k, s') \<in> set sessions \<and> allPlayersOffline s' \<and> clk 0 - lastActivity s' > oneHour)
        \<longleftrightarrow> (allPlayersOffline s \<and> clk 0 - lastActivity s > oneHour)"
      using that same [of k s] unfolding x by blast
    then show ?thesis
      unfolding x prod.case by blast
  qed
  then show ?thesis
    unfolding cleanup_def cleanup_loop_filter
    by (intro filter_cong refl)
qed

subsection \<open>Every reachable state is well formed\<close>

lemma wf_socket_new: "wf_socket (c, new_socket c)"
  by (simp add: wf_socket_def new_socket_def)

lemma wf_step:
  assumes wf: "wf_server srv" and st: "step srv a = Inr (srv', outs)"
  shows "wf_server srv'"
proof (cases a)
  case (Connect c)
  show ?thesis
  proof (cases "map_of (sockets srv) c")
    case None
    then have "c \<notin> fst ` set (sockets srv)"
      by (simp add: map_of_eq_None_iff)
    moreover have "srv' = srv\<lparr>sockets := sockets srv @ [(c, new_socket c)]\<rparr>"
      using st Connect None by simp
    ultimately show ?thesis
      using wf by (simp add: wf_server_def wf_socket_new)
  next
    case (Some s)
    then have "srv' = srv"
      using st Connect by simp
    then show ?thesis
      using wf by simp
  qed
next
  case (Recv c clk req)
  show ?thesis
  proof (cases "map_of (sockets srv) c")
    case None
    then have "srv' = srv"
      using st Recv by simp
    then show ?thesis
      using wf by simp
  next
    case (Some socket)
    have keys: "list_all (\<lambda>(k, s). k \<noteq> []) (sessions_of srv)"
      and dist: "distinct (map fst (sessions_of srv))"
      and socks: "list_all wf_socket (sockets srv)"
      and sdist: "distinct (map fst (sockets srv))"
      using wf by (simp_all add: wf_server_def)
    have "(c, socket) \<in> set (sockets srv)"
      using Some by (rule map_of_SomeD)
    then have wfs: "wf_socket (c, socket)"
      using socks by (simp add: list_all_iff)
    obtain socket' sessions' where
      h: "handle clk req socket (sessions_of srv) = Inr (socket', sessions', outs)"
      using st Recv Some by (auto split: sum.splits)
    have sh: "store_step (sessions_of srv) sessions'"
      "socket_step (sessions_of srv) socket socket'"
      using handle_shape [OF keys, of socket clk req] h by (simp_all add: shape_def)
    have k': "list_all (\<lambda>(k, s). k \<noteq> []) sessions'" "distinct (map fst sessions')"
      using store_step_keys [OF sh(1) keys dist] by simp_all
    have w': "wf_socket (c, socket')"
      using socket_step_wf [OF sh(2) wfs keys] .
    have srv': "srv' = \<lparr>sessions_of = sessions',
                       sockets = (case req of
                                    Disconnect \<Rightarrow> AList.delete c (sockets srv)
                                  | _ \<Rightarrow> AList.update c socket' (sockets srv))\<rparr>"
      using st Recv Some h by simp
    have "list_all wf_socket (sockets srv') \<and> distinct (map fst (sockets srv'))"
      unfolding srv' using socks sdist w'
      by (cases req) (simp_all add: list_all_update list_all_delete distinct_update distinct_delete)
    then show ?thesis
      using k' by (simp add: wf_server_def srv')
  qed
next
  case (Janitor clk)
  have "srv' = srv\<lparr>sessions_of := cleanup clk (sessions_of srv)\<rparr>"
    using st Janitor by simp
  then show ?thesis
    using wf
    by (simp add: wf_server_def cleanup_def cleanup_loop_filter list_all_iff distinct_map_filter)
qed

lemma wf_run:
  "wf_server srv \<Longrightarrow> run srv tr = Inr (srv', outs) \<Longrightarrow> wf_server srv'"
proof (induction tr arbitrary: srv outs)
  case Nil
  then show ?case by simp
next
  case (Cons a tr)
  from Cons.prems(2) obtain srv1 o1 outs1 where
    s: "step srv a = Inr (srv1, o1)" and r: "run srv1 tr = Inr (srv', outs1)"
    by (auto split: sum.splits)
  show ?case
    using Cons.IH [OF wf_step [OF Cons.prems(1) s] r] .
qed

lemma wf_init: "wf_server init_server"
  by (simp add: wf_server_def init_server_def)


subsection \<open>The listing of active sessions\<close>






subsection \<open>Handlers on a bound socket\<close>

lemma characterUpdate_bound:
  assumes "sessionId socket = Some sid" and "sid \<noteq> []"
    and "playerId socket = Some pid" and "pid \<noteq> []"
    and "map_of sessions sid = Some session"
    and "map_of (players session) pid = Some player"
    and "\<not> nullish data"
  shows "characterUpdate clk data socket sessions =
           Inr (socket,
                AList.update sid
                  (session\<lparr>players :=
                              AList.update pid
                                (if truthy (get_prop data ''character'')
                                 then obj_set player ''character''
                                        (Obj (spread_into
                                                (spread_into [] (obj_get player ''character''))
                                                (get_prop data ''character'')))
                                 else player)
                                (players session),
                            lastActivity := clk 0\<rparr>) sessions,
                [(ToOthers sid (socket_id socket), ''gameStateUpdate'',
                  Obj [(''type'', Str ''characterUpdate''),
                       (''playerId'', Str pid),
                       (''playerName'',
                          obj_get (if truthy (get_prop data ''character'')
                                   then obj_set player ''character''
                                          (Obj (spread_into
                                                  (spread_into [] (obj_get player ''character''))
                                                  (get_prop data ''character'')))
                                   else player) ''name''),
                       (''character'', get_prop data ''character'')])])"
  unfolding characterUpdate_def Let_def using assms by simp









subsection \<open>Sockets that never bind\<close>

lemma handle_keeps_binding:
  "\<not> binds req \<Longrightarrow> keeps_binding socket (handle clk req socket sessions)"
  by (cases req)
     (simp_all add: keeps_binding_def createSession_def joinAsGameMaster_def joinAsPlayer_def
        characterUpdate_def gameStateUpdate_def getActiveSessions_def gmNotesUpdate_def
        disconnect_def heartbeat_def ping_def messageAck_def create_session_def
        game_message_def update_player_def log_name_def Let_def
        split: option.split prod.split sum.split)

lemma unbound_step:
  assumes "unbound c (sockets srv)" and "never_binds c a" and "step srv a = Inr (srv', outs)"
  shows "unbound c (sockets srv')"
proof (cases a)
  case (Connect c')
  then show ?thesis
    using assms(1,3) by (auto simp: unbound_def new_socket_def split: option.splits)
next
  case (Recv c' clk req)
  show ?thesis
  proof (cases "map_of (sockets srv) c'")
    case None
    then show ?thesis
      using assms(1,3) Recv by auto
  next
    case (Some socket)
    obtain socket' sessions' where
      h: "handle clk req socket (sessions_of srv) = Inr (socket', sessions', outs)"
      using assms(3) Recv Some by (auto split: sum.splits)
    have srv': "sockets srv' = (case req of
                                    Disconnect \<Rightarrow> AList.delete c' (sockets srv)
                                  | _ \<Rightarrow> AList.update c' socket' (sockets srv))"
      using assms(3) Recv Some h by auto
    have "(c', socket) \<in> set (sockets srv)"
      using Some by (rule map_of_SomeD)
    then have old: "c' = c \<longrightarrow> sessionId socket = None \<and> rooms socket = []"
      using assms(1) by (auto simp: unbound_def list_all_iff)
    have "c' = c \<longrightarrow> sessionId socket' = None \<and> rooms socket' = []"
    proof
      assume "c' = c"
      then have "\<not> binds req"
        using assms(2) Recv by simp
      from handle_keeps_binding [OF this, of socket clk "sessions_of srv"] h
      have "sessionId socket' = sessionId socket \<and> rooms socket' = rooms socket"
        by (simp add: keeps_binding_def)
      then show "sessionId socket' = None \<and> rooms socket' = []"
        using old \<open>c' = c\<close> by simp
    qed
    then show ?thesis
      using assms(1) unfolding srv' unbound_def
      by (cases req) (simp_all add: list_all_update list_all_delete)
  qed
next
  case (Janitor clk)
  then show ?thesis
    using assms(1,3) by auto
qed

lemma unbound_run:
  "unbound c (sockets srv) \<Longrightarrow> list_all (never_binds c) tr \<Longrightarrow>
     run srv tr = Inr (srv', outs) \<Longrightarrow> unbound c (sockets srv')"
proof (induction tr arbitrary: srv outs)
  case Nil
  then show ?case by simp
next
  case (Cons a tr)
  from Cons.prems(3) obtain srv1 o1 outs1 where
    s: "step srv a = Inr (srv1, o1)" and r: "run srv1 tr = Inr (srv', outs1)"
    by (auto split: sum.splits)
  have "unbound c (sockets srv1)"
    using unbound_step [OF Cons.prems(1) _ s] Cons.prems(2) by simp
  then show ?case
    using Cons.IH [OF _ _ r] Cons.prems(2) by simp
qed

lemma unbound_drops:
  assumes "unbound c (sockets srv)"
  shows "step srv (Recv c clk (CharacterUpdate d)) = Inr (srv, [])"
    and "step srv (Recv c clk (GameStateUpdate d)) = Inr (srv, [])"
    and "c \<notin> set (recipients (sockets srv) (ToRoom r))"
proof -
  have none: "sessionId socket = None \<and> rooms socket = []"
    if "(c, socket) \<in> set (sockets srv)" for socket
    using assms that by (auto simp: unbound_def list_all_iff)
  show "c \<notin> set (recipients (sockets srv) (ToRoom r))"
    using none by (auto simp: image_iff)
  show "step srv (Recv c clk (CharacterUpdate d)) = Inr (srv, [])"
  proof (cases "map_of (sockets srv) c")
    case None
    then show ?thesis by simp
  next
    case (Some socket)
    then have "sessionId socket = None"
      using none [OF map_of_SomeD] by simp
    then show ?thesis
      using Some by (simp add: characterUpdate_def update_triv)
  qed
  show "step srv (Recv c clk (GameStateUpdate d)) = Inr (srv, [])"
  proof (cases "map_of (sockets srv) c")
    case None
    then show ?thesis by simp
  next
    case (Some socket)
    then have "sessionId socket = None"
      using none [OF map_of_SomeD] by simp
    then show ?thesis
      using Some by (simp add: gameStateUpdate_def update_triv)
  qed
qed

lemma found_not_nullish: "find_entry sessions (get_prop data k) = Some e \<Longrightarrow> \<not> nullish data"
  by (auto simp: nullish_def find_entry_def)

lemma new_player_name:
  "obj_get (new_player c playerData master now) ''name'' = get_prop playerData ''name''"
  by (simp add: new_player_def obj_get_def)

lemma joinAsGameMaster_success:
  assumes "find_entry sessions (get_prop data ''sessionId'') = Some (sid, session)"
    and "\<not> truthy (master_online session)"
    and "\<not> nullish (get_prop data ''playerData'')"
    and "to_string (get_prop (get_prop data ''playerData'') ''name'') = Inr shown"
  shows "\<exists>sessions' outs.
           joinAsGameMaster clk data socket sessions =
             Inr (socket\<lparr>playerId := Some (socket_id socket), isMaster := Bool True\<rparr>,
                  sessions', outs)"
  using assms found_not_nullish [OF assms(1)]
  by (simp add: joinAsGameMaster_def log_name_def new_player_name Let_def)

lemma joinAsPlayer_success:
  assumes "find_entry sessions (get_prop data ''sessionId'') = Some (sid, session)"
    and "\<not> nullish (get_prop data ''playerData'')"
    and "to_string (get_prop (get_prop data ''playerData'') ''name'') = Inr shown"
  shows "\<exists>sessions' outs.
           joinAsPlayer clk data socket sessions =
             Inr (socket\<lparr>playerId := Some (socket_id socket), isMaster := Bool False\<rparr>,
                  sessions', outs)"
  using assms found_not_nullish [OF assms(1)]
  by (simp add: joinAsPlayer_def log_name_def new_player_name Let_def)

lemma joinAsGameMaster_socket:
  assumes "joinAsGameMaster clk data socket sessions = Inr (socket', sessions', outs)"
  shows "sessionId socket' = sessionId socket \<and> rooms socket' = rooms socket
         \<and> (if map (\<lambda>(t, name, payload). name) outs = [''playerJoined'', ''playerUpdate'']
            then socket' = socket\<lparr>playerId := Some (socket_id socket), isMaster := Bool True\<rparr>
            else socket' = socket \<and> map (\<lambda>(t, name, payload). name) outs = [''sessionError''])"
  using assms
  by (auto simp: joinAsGameMaster_def log_name_def Let_def
        split: if_splits option.splits prod.splits sum.splits)

lemma joinAsPlayer_socket:
  assumes "joinAsPlayer clk data socket sessions = Inr (socket', sessions', outs)"
  shows "sessionId socket' = sessionId socket \<and> rooms socket' = rooms socket
         \<and> (if map (\<lambda>(t, name, payload). name) outs = [''playerJoined'', ''playerUpdate'']
            then socket' = socket\<lparr>playerId := Some (socket_id socket), isMaster := Bool False\<rparr>
            else socket' = socket \<and> map (\<lambda>(t, name, payload). name) outs = [''sessionError''])"
  using assms
  by (auto simp: joinAsPlayer_def log_name_def Let_def
        split: if_splits option.splits prod.splits sum.splits)

section \<open>The claims\<close>

subsection \<open>C1: one live master per session\<close>

text \<open>
  C1. The claim: after any sequence of createSession, joinSession, joinAsGameMaster,
  joinAsPlayer, rejoinSession and disconnect, at most one player of a session has
  \<open>isMaster = true\<close> and \<open>online = true\<close>. The run \<open>two_masters_trace\<close> uses these
  operations only and ends with two such players, \<open>A\<close> and \<open>B\<close>: \<open>rejoinSession\<close> puts
  the first master online again without the check that \<open>joinAsGameMaster\<close> makes.
\<close>

theorem two_live_masters:
  "map (\<lambda>(sid, session). (sid, live_masters session))
     (final_sessions (run init_server two_masters_trace))
   = [(''rinascimento-abc123'', [''A'', ''B''])]"
  by (simp add: two_masters_trace_def join_payload_def live_masters_def eval_defs)

subsection \<open>C2: a second master is refused\<close>

text \<open>
  C2. The claim: a \<open>joinAsGameMaster\<close> on a session with a live master is answered by
  a \<open>sessionError\<close> carrying the code \<open>MASTER_ALREADY_PRESENT\<close>, and the session is left
  as it was. In scenario B of the specification the event the second caller receives
  has no \<open>code\<close> property: the refusal emits the message alone. The refusal of
  \<open>joinSession\<close> does tag its payload, with the code \<open>SESSION_NOT_FOUND\<close>.
\<close>

theorem second_master_error_has_no_code:
  "map (\<lambda>(t, name, payload). (t, name, get_prop payload ''code''))
     (last_events (run init_server scenario_B))
   = [(ToSocket ''B'', ''sessionError'', Undefined)]
   \<and> map (\<lambda>(t, name, payload). (t, name, get_prop payload ''code''))
     (last_events (run init_server not_found_trace))
   = [(ToSocket ''A'', ''sessionError'', Str ''SESSION_NOT_FOUND'')]"
  by (simp add: scenario_B_def not_found_trace_def join_payload_def eval_defs)

text \<open>
  The rest of C2 holds: when the session exists and its \<open>masterId\<close> names a player who
  is online, \<open>joinAsGameMaster\<close> answers the caller alone, with a \<open>sessionError\<close> whose
  payload is the message, and leaves the socket and the whole store (the players,
  \<open>masterId\<close>, the log and \<open>lastActivity\<close> of every session) as they were.
\<close>

theorem joinAsGameMaster_live_master:
  assumes "get_prop data ''sessionId'' = Str sid"
    and "map_of sessions sid = Some session"
    and "masterId session = Some m" and "m \<noteq> []"
    and "map_of (players session) m = Some p" and "truthy (obj_get p ''online'')"
  shows "joinAsGameMaster clk data socket sessions =
           Inr (socket, sessions,
                [(ToSocket (socket_id socket), ''sessionError'',
                  Obj [(''message'', Str master_present_message)])])"
proof -
  have "\<not> nullish data"
    using assms(1) by (auto simp: nullish_def)
  moreover have "find_entry sessions (get_prop data ''sessionId'') = Some (sid, session)"
    using assms(1,2) by (simp add: find_entry_def)
  moreover have "truthy (master_online session)"
    using assms(3-6) by (simp add: master_online_def js_and_def)
  ultimately show ?thesis
    by (simp add: joinAsGameMaster_def)
qed

text \<open>
  The refusal on the store whose master \<open>A\<close> is online, for a caller \<open>B\<close>.
\<close>

theorem joinAsGameMaster_live_master_witness:
  "joinAsGameMaster (\<lambda>k. 2000) (join_payload ''rinascimento-abc123'' ''Bruno'')
     (new_socket ''B'') notes_store
   = Inr (new_socket ''B'', notes_store,
          [(ToSocket ''B'', ''sessionError'', Obj [(''message'', Str master_present_message)])])"
  using joinAsGameMaster_live_master
          [of "join_payload ''rinascimento-abc123'' ''Bruno''" "''rinascimento-abc123''"
              notes_store notes_session "''A''"
              "new_player ''A'' (Obj [(''name'', Str ''Anna'')]) True 1002"
              "\<lambda>k. 2000" "new_socket ''B''"]
  by (simp add: notes_store_def notes_session_def join_payload_def obj_get_def new_player_def
        new_socket_def)

subsection \<open>C3: rejoinSession is idempotent\<close>




subsection \<open>C4: gameStateUpdate logs and echoes\<close>




subsection \<open>C5: the sweep\<close>

text \<open>
  C5. On a store with every key once, the cleanup keeps the sessions in their order and
  removes exactly those whose players are all offline (\<open>online\<close> not truthy) and whose
  \<open>lastActivity\<close> lies more than one hour (3600000 ms) before the clock reading: such a
  session is gone after the sweep, and a session with a player online, or one that was
  active within the hour, is still stored, unchanged.
\<close>

theorem cleanup_removes_idle_offline:
  assumes "distinct (map fst sessions)"
  shows "cleanup clk sessions =
           filter (\<lambda>(k, s). \<not> ((\<forall>p \<in> snd ` set (players s). \<not> truthy (obj_get p ''online''))
                              \<and> clk 0 - lastActivity s > 3600000)) sessions
         \<and> map_of (cleanup clk sessions) sid =
             (case map_of sessions sid of
                None \<Rightarrow> None
              | Some s \<Rightarrow>
                  if (\<forall>p \<in> snd ` set (players s). \<not> truthy (obj_get p ''online''))
                     \<and> clk 0 - lastActivity s > 3600000
                  then None else Some s)"
proof -
  have off: "allPlayersOffline s \<longleftrightarrow> (\<forall>p \<in> snd ` set (players s). \<not> truthy (obj_get p ''online''))"
    for s
    by (simp add: allPlayersOffline_def list_all_iff)
  have eq: "cleanup clk sessions =
           filter (\<lambda>(k, s). \<not> ((\<forall>p \<in> snd ` set (players s). \<not> truthy (obj_get p ''online''))
                              \<and> clk 0 - lastActivity s > 3600000)) sessions"
    unfolding cleanup_filter [OF assms] off oneHour_def by simp
  show ?thesis
    unfolding eq map_of_filter_distinct [OF assms]
    by (simp split: option.splits)
qed

text \<open>
  C5 on the four sessions, swept at 4000000: only the idle session whose player is
  offline is removed.
\<close>

theorem cleanup_removes_idle_offline_witness:
  "map fst (cleanup (\<lambda>k. 4000000) listing_store)
     = [''rinascimento-aaaaaa'', ''rinascimento-bbbbbb'', ''rinascimento-dddddd'']
   \<and> map_of (cleanup (\<lambda>k. 4000000) listing_store) ''rinascimento-cccccc'' = None
   \<and> map_of (cleanup (\<lambda>k. 4000000) listing_store) ''rinascimento-dddddd''
       = map_of listing_store ''rinascimento-dddddd''"
proof -
  have d: "distinct (map fst listing_store)"
    by (simp add: listing_defs)
  show ?thesis
    using cleanup_removes_idle_offline [OF d, of "\<lambda>k. 4000000" "''rinascimento-cccccc''"]
      cleanup_removes_idle_offline [OF d, of "\<lambda>k. 4000000" "''rinascimento-dddddd''"]
    by (simp add: listing_defs)
qed

subsection \<open>C6: getActiveSessions\<close>



subsection \<open>C7: characterUpdate merges\<close>

text \<open>
  C7. For a socket bound to a session and a player of the store, and a payload (not
  \<open>null\<close> or \<open>undefined\<close>), \<open>characterUpdate\<close> stores a player object that differs from
  the old one in \<open>character\<close> at most: every key of the old character that the patch
  does not have keeps its value, and every key of a patch that is truthy takes the
  patch's value. The event goes to the room without the sender and carries the patch
  itself, with the type \<open>characterUpdate\<close>, the player's identifier and name. (The
  player's character and the patch are JavaScript objects: every key once.)
\<close>

theorem characterUpdate_merges:
  assumes "sessionId socket = Some sid" and "sid \<noteq> []"
    and "playerId socket = Some pid" and "pid \<noteq> []"
    and "map_of sessions sid = Some session"
    and "map_of (players session) pid = Some player"
    and "\<not> nullish data"
    and "distinct (map fst (own_props (obj_get player ''character'')))"
  shows "\<exists>player'.
           characterUpdate clk data socket sessions =
             Inr (socket,
                  AList.update sid
                    (session\<lparr>players := AList.update pid player' (players session),
                              lastActivity := clk 0\<rparr>) sessions,
                  [(ToOthers sid (socket_id socket), ''gameStateUpdate'',
                    Obj [(''type'', Str ''characterUpdate''),
                         (''playerId'', Str pid),
                         (''playerName'', obj_get player ''name''),
                         (''character'', get_prop data ''character'')])])
           \<and> (\<forall>k. k \<noteq> ''character'' \<longrightarrow> obj_get player' k = obj_get player k)
           \<and> (\<forall>k. k \<notin> fst ` set (own_props (get_prop data ''character'')) \<longrightarrow>
                  obj_get (own_props (obj_get player' ''character'')) k =
                  obj_get (own_props (obj_get player ''character'')) k)
           \<and> (truthy (get_prop data ''character'')
                \<and> distinct (map fst (own_props (get_prop data ''character''))) \<longrightarrow>
                (\<forall>k \<in> fst ` set (own_props (get_prop data ''character'')).
                   obj_get (own_props (obj_get player' ''character'')) k =
                   obj_get (own_props (get_prop data ''character'')) k))"
proof (cases "truthy (get_prop data ''character'')")
  case False
  have "characterUpdate clk data socket sessions =
             Inr (socket,
                  AList.update sid
                    (session\<lparr>players := AList.update pid player (players session),
                              lastActivity := clk 0\<rparr>) sessions,
                  [(ToOthers sid (socket_id socket), ''gameStateUpdate'',
                    Obj [(''type'', Str ''characterUpdate''),
                         (''playerId'', Str pid),
                         (''playerName'', obj_get player ''name''),
                         (''character'', get_prop data ''character'')])])"
    unfolding characterUpdate_bound [OF assms(1-7)] using False by simp
  then show ?thesis
    using False by (intro exI [of _ player]) simp
next
  case True
  define old where "old = obj_get player ''character''"
  define patch where "patch = get_prop data ''character''"
  define merged where "merged = spread_into (spread_into [] old) patch"
  define player' where "player' = obj_set player ''character'' (Obj merged)"
  have run: "characterUpdate clk data socket sessions =
             Inr (socket,
                  AList.update sid
                    (session\<lparr>players := AList.update pid player' (players session),
                              lastActivity := clk 0\<rparr>) sessions,
                  [(ToOthers sid (socket_id socket), ''gameStateUpdate'',
                    Obj [(''type'', Str ''characterUpdate''),
                         (''playerId'', Str pid),
                         (''playerName'', obj_get player ''name''),
                         (''character'', get_prop data ''character'')])])"
    unfolding characterUpdate_bound [OF assms(1-7)] player'_def merged_def old_def patch_def
    using True by (simp add: obj_get_obj_set)
  have others: "obj_get player' k = obj_get player k" if "k \<noteq> ''character''" for k
    using that by (simp add: player'_def obj_get_obj_set)
  have chr: "own_props (obj_get player' ''character'') = merged"
    by (simp add: player'_def obj_get_obj_set)
  have base: "obj_get (spread_into [] old) k = obj_get (own_props old) k" for k
  proof (cases "k \<in> fst ` set (own_props old)")
    case True
    then show ?thesis
      using assms(8) by (simp add: obj_get_spread_distinct old_def)
  next
    case False
    then have "map_of (own_props old) k = None"
      by (simp add: map_of_eq_None_iff)
    then show ?thesis
      using False by (simp add: obj_get_spread_other) (simp add: obj_get_def)
  qed
  have keep: "obj_get merged k = obj_get (own_props old) k"
    if "k \<notin> fst ` set (own_props patch)" for k
    using that by (simp add: merged_def obj_get_spread_other base)
  have take: "obj_get merged k = obj_get (own_props patch) k"
    if "distinct (map fst (own_props patch))" and "k \<in> fst ` set (own_props patch)" for k
    using that by (simp add: merged_def obj_get_spread_distinct)
  show ?thesis
    apply (intro exI [of _ player'] conjI)
    subgoal by (rule run)
    subgoal using others by blast
    subgoal using keep unfolding chr old_def patch_def by blast
    subgoal using take unfolding chr patch_def by blast
    done
qed

text \<open>
  C7 for the patch \<open>{b: 2}\<close> after the patch \<open>{a: 1}\<close>: the character has both.
\<close>

theorem characterUpdate_merges_witness:
  "\<exists>player'.
     characterUpdate (\<lambda>k. 5000) (Obj [(''character'', Obj [(''b'', Num 2)])]) socket_A
       [(''rinascimento-abc123'', sheet_session)]
     = Inr (socket_A,
            [(''rinascimento-abc123'',
              sheet_session\<lparr>players := [(''A'', player')], lastActivity := 5000\<rparr>)],
            [(ToOthers ''rinascimento-abc123'' ''A'', ''gameStateUpdate'',
              Obj [(''type'', Str ''characterUpdate''), (''playerId'', Str ''A''),
                   (''playerName'', Str ''Anna''),
                   (''character'', Obj [(''b'', Num 2)])])])
     \<and> obj_get (own_props (obj_get player' ''character'')) ''a'' = Num 1
     \<and> obj_get (own_props (obj_get player' ''character'')) ''b'' = Num 2
     \<and> obj_get player' ''name'' = Str ''Anna''"
proof -
  let ?data = "Obj [(''character'', Obj [(''b'', Num 2)])]"
  have h: "sessionId socket_A = Some ''rinascimento-abc123''" "''rinascimento-abc123'' \<noteq> []"
    "playerId socket_A = Some ''A''" "''A'' \<noteq> []"
    "map_of [(''rinascimento-abc123'', sheet_session)] ''rinascimento-abc123'' = Some sheet_session"
    "map_of (players sheet_session) ''A'' = Some sheet"
    "\<not> nullish ?data"
    "distinct (map fst (own_props (obj_get sheet ''character'')))"
    by (simp_all add: socket_A_def sheet_session_def sheet_def nullish_def obj_get_def
          obj_set_def anna_def new_player_def update_conv')
  have patch: "get_prop ?data ''character'' = Obj [(''b'', Num 2)]"
    by (simp add: obj_get_def)
  have old: "obj_get sheet ''character'' = Obj [(''a'', Num 1)]" "obj_get sheet ''name'' = Str ''Anna''"
    by (simp_all add: sheet_def obj_get_def obj_set_def anna_def new_player_def update_conv')
  from characterUpdate_merges [OF h, of "\<lambda>k. 5000"]
  obtain player' where
    r: "characterUpdate (\<lambda>k. 5000) ?data socket_A [(''rinascimento-abc123'', sheet_session)] =
          Inr (socket_A,
               AList.update ''rinascimento-abc123''
                 (sheet_session\<lparr>players := AList.update ''A'' player' (players sheet_session),
                                lastActivity := 5000\<rparr>)
                 [(''rinascimento-abc123'', sheet_session)],
               [(ToOthers ''rinascimento-abc123'' (socket_id socket_A), ''gameStateUpdate'',
                 Obj [(''type'', Str ''characterUpdate''), (''playerId'', Str ''A''),
                      (''playerName'', obj_get sheet ''name''),
                      (''character'', get_prop ?data ''character'')])])"
    and others: "\<forall>k. k \<noteq> ''character'' \<longrightarrow> obj_get player' k = obj_get sheet k"
    and keep: "\<forall>k. k \<notin> fst ` set (own_props (get_prop ?data ''character'')) \<longrightarrow>
                  obj_get (own_props (obj_get player' ''character'')) k =
                  obj_get (own_props (obj_get sheet ''character'')) k"
    and take: "truthy (get_prop ?data ''character'')
                \<and> distinct (map fst (own_props (get_prop ?data ''character''))) \<longrightarrow>
                (\<forall>k \<in> fst ` set (own_props (get_prop ?data ''character'')).
                   obj_get (own_props (obj_get player' ''character'')) k =
                   obj_get (own_props (get_prop ?data ''character'')) k)"
    by blast
  have r': "characterUpdate (\<lambda>k. 5000) ?data socket_A [(''rinascimento-abc123'', sheet_session)]
     = Inr (socket_A,
            [(''rinascimento-abc123'',
              sheet_session\<lparr>players := [(''A'', player')], lastActivity := 5000\<rparr>)],
            [(ToOthers ''rinascimento-abc123'' ''A'', ''gameStateUpdate'',
              Obj [(''type'', Str ''characterUpdate''), (''playerId'', Str ''A''),
                   (''playerName'', Str ''Anna''),
                   (''character'', Obj [(''b'', Num 2)])])])"
    unfolding r patch old by (simp add: sheet_session_def socket_A_def)
  have a: "obj_get (own_props (obj_get player' ''character'')) ''a'' = Num 1"
    using keep [rule_format, of "''a''"] unfolding patch old by (simp add: obj_get_def)
  have b: "obj_get (own_props (obj_get player' ''character'')) ''b'' = Num 2"
    using take unfolding patch by (simp add: obj_get_def)
  have n: "obj_get player' ''name'' = Str ''Anna''"
    using others [rule_format, of "''name''"] old by simp
  show ?thesis
    by (intro exI [of _ player'] conjI r' a b n)
qed

subsection \<open>C8: the master's notes\<close>

text \<open>
  C8. \<open>gmNotesUpdate\<close> from a socket whose \<open>isMaster\<close> is not truthy emits nothing and
  changes nothing. From a socket that is master and bound to a session of the store,
  with a payload to read \<open>notes\<close> from, it replaces \<open>gmNotes\<close> by the payload's
  \<open>notes\<close>, sets \<open>lastActivity\<close>, and emits \<open>gmNotesSaved\<close> to that socket only.
\<close>

theorem gmNotesUpdate_master_only:
  "(\<not> truthy (isMaster socket) \<longrightarrow>
      gmNotesUpdate clk data socket sessions = Inr (socket, sessions, []))
   \<and> (truthy (isMaster socket) \<and> sessionId socket = Some sid \<and> sid \<noteq> []
        \<and> map_of sessions sid = Some session \<and> \<not> nullish data \<longrightarrow>
      gmNotesUpdate clk data socket sessions =
        Inr (socket,
             AList.update sid
               (session\<lparr>gmNotes := get_prop data ''notes'', lastActivity := clk 0\<rparr>) sessions,
             [(ToSocket (socket_id socket), ''gmNotesSaved'', Undefined)])
      \<and> recipients socks (ToSocket (socket_id socket)) = [socket_id socket])"
  by (simp add: gmNotesUpdate_def split: option.splits)

text \<open>
  C8 for a player's socket and for the master's socket, on the same store.
\<close>

theorem gmNotesUpdate_master_only_witness:
  "gmNotesUpdate (\<lambda>k. 2000) (Obj [(''notes'', Str ''secret'')])
     \<lparr>socket_id = ''P'', sessionId = Some ''rinascimento-abc123'', playerId = Some ''P'',
      isMaster = Bool False, rooms = [''rinascimento-abc123'']\<rparr> notes_store
   = Inr (\<lparr>socket_id = ''P'', sessionId = Some ''rinascimento-abc123'', playerId = Some ''P'',
           isMaster = Bool False, rooms = [''rinascimento-abc123'']\<rparr>, notes_store, [])
   \<and> gmNotesUpdate (\<lambda>k. 2000) (Obj [(''notes'', Str ''secret'')])
     \<lparr>socket_id = ''A'', sessionId = Some ''rinascimento-abc123'', playerId = Some ''A'',
      isMaster = Bool True, rooms = [''rinascimento-abc123'']\<rparr> notes_store
   = Inr (\<lparr>socket_id = ''A'', sessionId = Some ''rinascimento-abc123'', playerId = Some ''A'',
           isMaster = Bool True, rooms = [''rinascimento-abc123'']\<rparr>,
          [(''rinascimento-abc123'',
            notes_session\<lparr>gmNotes := Str ''secret'', lastActivity := 2000\<rparr>)],
          [(ToSocket ''A'', ''gmNotesSaved'', Undefined)])"
  using gmNotesUpdate_master_only
          [of "\<lparr>socket_id = ''P'', sessionId = Some ''rinascimento-abc123'', playerId = Some ''P'',
                isMaster = Bool False, rooms = [''rinascimento-abc123'']\<rparr>"
              "\<lambda>k. 2000" "Obj [(''notes'', Str ''secret'')]" notes_store]
        gmNotesUpdate_master_only
          [of "\<lparr>socket_id = ''A'', sessionId = Some ''rinascimento-abc123'', playerId = Some ''A'',
                isMaster = Bool True, rooms = [''rinascimento-abc123'']\<rparr>"
              "\<lambda>k. 2000" "Obj [(''notes'', Str ''secret'')]" notes_store
              "''rinascimento-abc123''" notes_session]
  by (simp add: notes_store_def nullish_def obj_get_def)

subsection \<open>C9: createSession\<close>

text \<open>
  C9, as stated: every createSession generates an identifier that is not yet in the
  store, and \<open>createdAt\<close> and \<open>lastActivity\<close> are the same instant. When the random
  suffix \<open>abc123\<close> comes up a second time, the identifier is the one already in the
  store, the session kept under it (with its player \<open>A\<close>) is replaced by an empty one,
  and the two readings of the clock, 2000 and 2001, differ.
\<close>

theorem createSession_reuses_identifier:
  "map (\<lambda>(sid, s). (sid, map fst (players s), createdAt s, lastActivity s))
     (final_sessions (run init_server collision_trace))
   = [(''rinascimento-abc123'', [''A''], 1000, 1002)]
   \<and> map (\<lambda>(sid, s). (sid, map fst (players s), createdAt s, lastActivity s))
     (final_sessions (run init_server
        (collision_trace @ [Recv ''A'' (\<lambda>k. 2000 + int k) (CreateSession ''abc123'')])))
   = [(''rinascimento-abc123'', [], 2000, 2001)]"
  by (simp add: collision_trace_def join_payload_def eval_defs)

text \<open>
  C9, amended: createSession never fails. It stores an empty session (no players, empty
  log, no master) under \<open>rinascimento-\<close> followed by the random suffix, with \<open>createdAt\<close>
  and \<open>lastActivity\<close> the two readings of the clock it takes, and answers the caller
  with that identifier and \<open>success\<close>. The sessions under every other identifier stay
  as they are; an identifier that was not in the store is appended to it.
\<close>

theorem createSession_stores_empty_session:
  assumes "sid = ''rinascimento-'' @ rnd"
    and "fresh = \<lparr>session_id = sid, masterId = None, players = [], gameLog = [],
                  gameState = Obj [], gmNotes = Undefined,
                  createdAt = clk 0, lastActivity = clk 1\<rparr>"
  shows "createSession rnd clk socket sessions =
           Inr (socket, AList.update sid fresh sessions,
                [(ToSocket (socket_id socket), ''sessionCreated'',
                  Obj [(''sessionId'', Str sid), (''success'', Bool True)])])
         \<and> take 13 sid = ''rinascimento-''
         \<and> map_of (AList.update sid fresh sessions) sid = Some fresh
         \<and> (\<forall>k. k \<noteq> sid \<longrightarrow> map_of (AList.update sid fresh sessions) k = map_of sessions k)
         \<and> (sid \<notin> fst ` set sessions \<longrightarrow> AList.update sid fresh sessions = sessions @ [(sid, fresh)])"
proof -
  have "sid \<notin> fst ` set sessions \<Longrightarrow> AList.update sid fresh sessions = sessions @ [(sid, fresh)]"
    by (induction sessions) auto
  then show ?thesis
    using assms by (simp add: createSession_def Let_def update_conv')
qed

text \<open>
  The amended C9 on the empty store, with both readings of the clock at 1000.
\<close>

theorem createSession_stores_empty_session_witness:
  "createSession ''abc123'' (\<lambda>k. 1000) (new_socket ''A'') []
   = Inr (new_socket ''A'',
          [(''rinascimento-abc123'',
            \<lparr>session_id = ''rinascimento-abc123'', masterId = None, players = [], gameLog = [],
             gameState = Obj [], gmNotes = Undefined, createdAt = 1000, lastActivity = 1000\<rparr>)],
          [(ToSocket ''A'', ''sessionCreated'',
            Obj [(''sessionId'', Str ''rinascimento-abc123''), (''success'', Bool True)])])"
  using createSession_stores_empty_session
          [of "''rinascimento-abc123''" "''abc123''"
              "\<lparr>session_id = ''rinascimento-abc123'', masterId = None, players = [], gameLog = [],
                gameState = Obj [], gmNotes = Undefined, createdAt = 1000, lastActivity = 1000\<rparr>"
              "\<lambda>k. 1000" "new_socket ''A''" "[]"]
  by (simp add: new_socket_def)

subsection \<open>C10: joining as master or player binds no session\<close>

text \<open>
  C10. A \<open>joinAsGameMaster\<close> that finds the session without a live master, and a
  \<open>joinAsPlayer\<close> that finds the session, with player data whose name can be printed,
  set the socket's \<open>playerId\<close> to the socket's identifier and its \<open>isMaster\<close> to
  \<open>true\<close> and \<open>false\<close>. Whatever they answer, they leave the socket's \<open>sessionId\<close>
  and rooms as they were, and they set the two fields exactly when they answer with
  \<open>playerJoined\<close>; otherwise they answer with a \<open>sessionError\<close> and the socket is as it
  was. So a connection that starts unbound and never sends \<open>joinSession\<close>,
  \<open>rejoinSession\<close> or the legacy \<open>join_session\<close> (whatever else it and the other
  connections do, the other legacy events included) is still unbound at the end of the
  run: its next \<open>characterUpdate\<close> or \<open>gameStateUpdate\<close> changes nothing and emits
  nothing, and no event sent to a room reaches it.
\<close>

theorem join_as_role_leaves_socket_unbound:
  assumes "run srv0 tr = Inr (srv, outs)"
    and "unbound c (sockets srv0)" and "list_all (never_binds c) tr"
  shows "(find_entry sessions (get_prop d1 ''sessionId'') = Some (sid1, session1)
            \<and> \<not> truthy (master_online session1)
            \<and> \<not> nullish (get_prop d1 ''playerData'')
            \<and> to_string (get_prop (get_prop d1 ''playerData'') ''name'') = Inr shown1 \<longrightarrow>
          (\<exists>sessions1 outs1.
             joinAsGameMaster clk1 d1 socket sessions =
               Inr (socket\<lparr>playerId := Some (socket_id socket), isMaster := Bool True\<rparr>,
                    sessions1, outs1)))
         \<and> (find_entry sessions (get_prop d2 ''sessionId'') = Some (sid2, session2)
            \<and> \<not> nullish (get_prop d2 ''playerData'')
            \<and> to_string (get_prop (get_prop d2 ''playerData'') ''name'') = Inr shown2 \<longrightarrow>
          (\<exists>sessions2 outs2.
             joinAsPlayer clk2 d2 socket sessions =
               Inr (socket\<lparr>playerId := Some (socket_id socket), isMaster := Bool False\<rparr>,
                    sessions2, outs2)))
         \<and> (joinAsGameMaster clk3 d3 socket sessions = Inr (socket3, sessions3, outs3) \<longrightarrow>
            sessionId socket3 = sessionId socket \<and> rooms socket3 = rooms socket
            \<and> (if map (\<lambda>(t, name, payload). name) outs3 = [''playerJoined'', ''playerUpdate'']
               then socket3 = socket\<lparr>playerId := Some (socket_id socket), isMaster := Bool True\<rparr>
               else socket3 = socket
                    \<and> map (\<lambda>(t, name, payload). name) outs3 = [''sessionError'']))
         \<and> (joinAsPlayer clk4 d4 socket sessions = Inr (socket4, sessions4, outs4) \<longrightarrow>
            sessionId socket4 = sessionId socket \<and> rooms socket4 = rooms socket
            \<and> (if map (\<lambda>(t, name, payload). name) outs4 = [''playerJoined'', ''playerUpdate'']
               then socket4 = socket\<lparr>playerId := Some (socket_id socket), isMaster := Bool False\<rparr>
               else socket4 = socket
                    \<and> map (\<lambda>(t, name, payload). name) outs4 = [''sessionError'']))
         \<and> unbound c (sockets srv)
         \<and> step srv (Recv c clk (CharacterUpdate d)) = Inr (srv, [])
         \<and> step srv (Recv c clk (GameStateUpdate d)) = Inr (srv, [])
         \<and> c \<notin> set (recipients (sockets srv) (ToRoom r))"
proof -
  have u: "unbound c (sockets srv)"
    using unbound_run [OF assms(2,3,1)] .
  show ?thesis
    apply (intro conjI impI)
    subgoal by (elim conjE) (rule joinAsGameMaster_success)
    subgoal by (elim conjE) (rule joinAsPlayer_success)
    subgoal using joinAsGameMaster_socket by blast
    subgoal using joinAsGameMaster_socket by blast
    subgoal using joinAsGameMaster_socket by blast
    subgoal using joinAsPlayer_socket by blast
    subgoal using joinAsPlayer_socket by blast
    subgoal using joinAsPlayer_socket by blast
    subgoal by (rule u)
    subgoal by (rule unbound_drops(1) [OF u])
    subgoal by (rule unbound_drops(2) [OF u])
    subgoal by (rule unbound_drops(3) [OF u])
    done
qed

text \<open>
  C10 on \<open>seats_trace\<close>: \<open>A\<close> is master of record and \<open>C\<close> is a player of record,
  both bound to no session; only \<open>B\<close>, which sent the legacy \<open>join_session\<close>, is in
  the room. The dice roll of \<open>A\<close> and the character patch of \<open>C\<close> are dropped. And
  \<open>joinAsPlayer\<close> on the store with one session sets the two fields of a new socket.
\<close>

theorem join_as_role_leaves_socket_unbound_witness:
  "map (\<lambda>(c, s). (c, playerId s, isMaster s, sessionId s, rooms s))
     (sockets (final_server (run init_server seats_trace)))
     = [(''A'', Some ''A'', Bool True, None, []),
        (''B'', None, Undefined, Some ''rinascimento-abc123'', [''rinascimento-abc123'']),
        (''C'', Some ''C'', Bool False, None, [])]
   \<and> step (final_server (run init_server seats_trace))
        (Recv ''A'' (\<lambda>k. 2000) (GameStateUpdate dice_roll))
     = Inr (final_server (run init_server seats_trace), [])
   \<and> step (final_server (run init_server seats_trace))
        (Recv ''C'' (\<lambda>k. 2000) (CharacterUpdate (Obj [(''character'', Obj [(''a'', Num 1)])])))
     = Inr (final_server (run init_server seats_trace), [])
   \<and> ''A'' \<notin> set (recipients (sockets (final_server (run init_server seats_trace)))
                     (ToRoom ''rinascimento-abc123''))
   \<and> ''C'' \<notin> set (recipients (sockets (final_server (run init_server seats_trace)))
                     (ToRoom ''rinascimento-abc123''))
   \<and> (\<exists>sessions2 outs2.
        joinAsPlayer (\<lambda>k. 2000) (join_payload ''rinascimento-abc123'' ''Carla'')
          (new_socket ''C'') notes_store
        = Inr (\<lparr>socket_id = ''C'', sessionId = None, playerId = Some ''C'',
                isMaster = Bool False, rooms = []\<rparr>, sessions2, outs2))"
proof -
  have "\<exists>srv outs. run init_server seats_trace = Inr (srv, outs)"
    by (simp add: seats_trace_def join_payload_def eval_defs join_session_def call_back_def
          spread_into_def update_player_def)
  then obtain srv outs where r: "run init_server seats_trace = Inr (srv, outs)"
    by blast
  have f: "final_server (run init_server seats_trace) = srv"
    by (simp add: r final_server_def)
  have u: "unbound ''A'' (sockets init_server)" "unbound ''C'' (sockets init_server)"
    by (simp_all add: unbound_def init_server_def)
  have n: "list_all (never_binds ''A'') seats_trace" "list_all (never_binds ''C'') seats_trace"
    by (simp_all add: seats_trace_def)
  have s: "map (\<lambda>(c, s). (c, playerId s, isMaster s, sessionId s, rooms s))
     (sockets (final_server (run init_server seats_trace)))
     = [(''A'', Some ''A'', Bool True, None, []),
        (''B'', None, Undefined, Some ''rinascimento-abc123'', [''rinascimento-abc123'']),
        (''C'', Some ''C'', Bool False, None, [])]"
    by (simp add: final_server_def seats_trace_def join_payload_def eval_defs join_session_def
          call_back_def spread_into_def update_player_def)
  have found: "find_entry notes_store
                 (get_prop (join_payload ''rinascimento-abc123'' ''Carla'') ''sessionId'')
               = Some (''rinascimento-abc123'', notes_session)
               \<and> \<not> nullish (get_prop (join_payload ''rinascimento-abc123'' ''Carla'') ''playerData'')
               \<and> to_string (get_prop (get_prop (join_payload ''rinascimento-abc123'' ''Carla'')
                                        ''playerData'') ''name'') = Inr ''Carla''"
    by (simp add: notes_store_def join_payload_def find_entry_def obj_get_def nullish_def)
  note at_A = join_as_role_leaves_socket_unbound
                [OF r u(1) n(1), where clk = "\<lambda>k. 2000" and d = dice_roll
                   and r = "''rinascimento-abc123''"]
  note at_C = join_as_role_leaves_socket_unbound
                [OF r u(2) n(2), where clk = "\<lambda>k. 2000"
                   and d = "Obj [(''character'', Obj [(''a'', Num 1)])]"
                   and r = "''rinascimento-abc123''"
                   and ?d2.0 = "join_payload ''rinascimento-abc123'' ''Carla''"
                   and sessions = notes_store and ?sid2.0 = "''rinascimento-abc123''"
                   and ?session2.0 = notes_session and ?shown2.0 = "''Carla''"
                   and ?clk2.0 = "\<lambda>k. 2000" and socket = "new_socket ''C''"]
  have a: "step srv (Recv ''A'' (\<lambda>k. 2000) (GameStateUpdate dice_roll)) = Inr (srv, [])"
    "''A'' \<notin> set (recipients (sockets srv) (ToRoom ''rinascimento-abc123''))"
    by (rule at_A [THEN conjunct2, THEN conjunct2, THEN conjunct2, THEN conjunct2,
                   THEN conjunct2, THEN conjunct2, THEN conjunct1])
       (rule at_A [THEN conjunct2, THEN conjunct2, THEN conjunct2, THEN conjunct2,
                   THEN conjunct2, THEN conjunct2, THEN conjunct2])
  have c: "step srv (Recv ''C'' (\<lambda>k. 2000)
                       (CharacterUpdate (Obj [(''character'', Obj [(''a'', Num 1)])])))
           = Inr (srv, [])"
    "''C'' \<notin> set (recipients (sockets srv) (ToRoom ''rinascimento-abc123''))"
    by (rule at_C [THEN conjunct2, THEN conjunct2, THEN conjunct2, THEN conjunct2,
                   THEN conjunct2, THEN conjunct1])
       (rule at_C [THEN conjunct2, THEN conjunct2, THEN conjunct2, THEN conjunct2,
                   THEN conjunct2, THEN conjunct2, THEN conjunct2])
  have j: "\<exists>sessions2 outs2.
        joinAsPlayer (\<lambda>k. 2000) (join_payload ''rinascimento-abc123'' ''Carla'')
          (new_socket ''C'') notes_store
        = Inr ((new_socket ''C'')\<lparr>playerId := Some (socket_id (new_socket ''C'')),
                                    isMaster := Bool False\<rparr>, sessions2, outs2)"
    by (rule at_C [THEN conjunct2, THEN conjunct1, THEN mp, OF found])
  show ?thesis
    using s a c j unfolding f by (simp add: new_socket_def)
qed

end
